theory Spec2Isabelle
  imports Complex_Main
begin

section \<open>Python values, exceptions and remote outcomes\<close>

text \<open>
  A shallow embedding of \<^verbatim>\<open>gitlab_export_import.py\<close> (class \<^verbatim>\<open>GitlabImportExport\<close>).
  Python floats are the finite reals together with the two infinities and NaN; the float
  operations of the program are the comparison \<^verbatim>\<open>delay_seconds >= 1\<close>, which is exact,
  and the call of \<^verbatim>\<open>time.sleep\<close>.
\<close>

datatype pyfloat = Fin real | PosInf | NegInf | NaN

fun float_ge :: "pyfloat \<Rightarrow> real \<Rightarrow> bool" where
  "float_ge (Fin r) c = (c \<le> r)"
| "float_ge PosInf c = True"
| "float_ge NegInf c = False"
| "float_ge NaN c = False"

fun float_lt :: "pyfloat \<Rightarrow> real \<Rightarrow> bool" where
  "float_lt (Fin r) c = (r < c)"
| "float_lt PosInf c = False"
| "float_lt NegInf c = True"
| "float_lt NaN c = False"

datatype pyval = PyNone | PyInt int | PyStr string

fun digit_char :: "nat \<Rightarrow> char" where
  "digit_char n = char_of (48 + n)"

fun str_nat :: "nat \<Rightarrow> string" where
  "str_nat n = (if n < 10 then [digit_char n] else str_nat (n div 10) @ [digit_char (n mod 10)])"

declare str_nat.simps [simp del]

text \<open>\<^verbatim>\<open>str(v)\<close> and the truth value of \<^verbatim>\<open>v\<close> in a condition.\<close>

fun py_str :: "pyval \<Rightarrow> string" where
  "py_str PyNone = ''None''"
| "py_str (PyInt i) = (if i < 0 then CHR ''-'' # str_nat (nat (- i)) else str_nat (nat i))"
| "py_str (PyStr s) = s"

fun truthy :: "pyval \<Rightarrow> bool" where
  "truthy PyNone = False"
| "truthy (PyInt i) = (i \<noteq> 0)"
| "truthy (PyStr s) = (s \<noteq> [])"

text \<open>A path is the tuple of its components, as \<^verbatim>\<open>PurePath.parts\<close> has it; an absolute
  path starts with the component \<^verbatim>\<open>/\<close>.\<close>

type_synonym path = "string list"

text \<open>\<^verbatim>\<open>OSError\<close> stands for the instances of the class itself, with the text of the
  error number and the file name; its subclasses have constructors of their own.\<close>

datatype exn =
    AssertionError string
  | RuntimeError string
  | AttributeError string
  | KeyError string
  | TypeError string
  | ValueError string
  | OverflowError string
  | StopIteration
  | FileNotFoundError path
  | IsADirectoryError path
  | NotADirectoryError path
  | FileExistsError path
  | OSError string path
  | JSONDecodeError path
  | GitlabError string

text \<open>
  \<^verbatim>\<open>time.sleep(d)\<close> converts the float to the clock's integer and hands the
  deadline to the kernel: NaN is a \<^verbatim>\<open>ValueError\<close>; a value beyond the range
  \<open>cmax\<close> of the integer (seconds; about \<open>9.22 \<times> 10\<^sup>9\<close> with 64-bit
  nanoseconds), the infinities among them, is an \<^verbatim>\<open>OverflowError\<close>; a negative
  value in range is a \<^verbatim>\<open>ValueError\<close>; and a sleep longer than the longest one the
  kernel takes, \<open>smax\<close>, is the \<^verbatim>\<open>OSError\<close> of an invalid argument. The result
  is the exception, if there is one.
\<close>

definition sleep_error :: "real \<Rightarrow> real \<Rightarrow> pyfloat \<Rightarrow> exn option" where
  "sleep_error cmax smax d =
     (case d of
        NaN \<Rightarrow> Some (ValueError ''Invalid value NaN (not a number)'')
      | PosInf \<Rightarrow> Some (OverflowError ''timestamp out of range for platform time_t'')
      | NegInf \<Rightarrow> Some (OverflowError ''timestamp out of range for platform time_t'')
      | Fin r \<Rightarrow>
          if cmax < \<bar>r\<bar> then Some (OverflowError ''timestamp out of range for platform time_t'')
          else if r < 0 then Some (ValueError ''sleep length must be non-negative'')
          else if smax < r then Some (OSError ''Invalid argument'' [])
          else None)"

section \<open>Paths\<close>

text \<open>
  \<^verbatim>\<open>pathlib\<close> parses a string into components at the separators of the host
  (\<^verbatim>\<open>/\<close> on POSIX; \<^verbatim>\<open>/\<close> and the backslash on Windows), dropping empty components and
  \<^verbatim>\<open>.\<close>, and prints a path with the host's own separator. Drive letters are not modelled.
\<close>

datatype flavour = Posix | Windows

definition backslash :: char where
  "backslash = CHR 0x5C"

fun is_sep :: "flavour \<Rightarrow> char \<Rightarrow> bool" where
  "is_sep Posix c = (c = CHR ''/'')"
| "is_sep Windows c = (c = CHR ''/'' \<or> c = backslash)"

fun sep_char :: "flavour \<Rightarrow> char" where
  "sep_char Posix = CHR ''/''"
| "sep_char Windows = backslash"

fun split_on :: "(char \<Rightarrow> bool) \<Rightarrow> string \<Rightarrow> string list" where
  "split_on P [] = [[]]"
| "split_on P (c # cs) =
     (if P c then [] # split_on P cs
      else (case split_on P cs of [] \<Rightarrow> [[c]] | x # xs \<Rightarrow> (c # x) # xs))"

fun join :: "string \<Rightarrow> string list \<Rightarrow> string" where
  "join s [] = []"
| "join s [x] = x"
| "join s (x # y # ys) = x @ s @ join s (y # ys)"

definition is_part :: "string \<Rightarrow> bool" where
  "is_part p = (p \<noteq> [] \<and> p \<noteq> ''.'')"

text \<open>\<^verbatim>\<open>Path(s)\<close>.\<close>

definition parse_path :: "flavour \<Rightarrow> string \<Rightarrow> path" where
  "parse_path fl s =
     (case s of [] \<Rightarrow> [] | c # _ \<Rightarrow> if is_sep fl c then [[sep_char fl]] else [])
     @ filter is_part (split_on (is_sep fl) s)"

definition is_absolute :: "flavour \<Rightarrow> path \<Rightarrow> bool" where
  "is_absolute fl p = (case p of [] \<Rightarrow> False | c # _ \<Rightarrow> c = [sep_char fl])"

text \<open>\<^verbatim>\<open>p.joinpath(q)\<close>: an absolute \<open>q\<close> replaces \<open>p\<close>.\<close>

definition joinpath :: "flavour \<Rightarrow> path \<Rightarrow> path \<Rightarrow> path" where
  "joinpath fl p q = (if is_absolute fl q then q else p @ q)"

text \<open>\<^verbatim>\<open>str(p)\<close>.\<close>

definition str_path :: "flavour \<Rightarrow> path \<Rightarrow> string" where
  "str_path fl p =
     (case p of [] \<Rightarrow> ''.''
      | c # cs \<Rightarrow> if is_absolute fl p then c @ join [sep_char fl] cs else join [sep_char fl] p)"

text \<open>\<^verbatim>\<open>p.name\<close>: the last component, empty for the empty path and for a bare root.\<close>

definition path_name :: "flavour \<Rightarrow> path \<Rightarrow> string" where
  "path_name fl p = (if p = [] \<or> (is_absolute fl p \<and> length p = 1) then [] else last p)"

text \<open>\<^verbatim>\<open>p.with_name(n)\<close> raises \<^verbatim>\<open>ValueError\<close> for a path without a name and for an
  invalid name.\<close>

definition with_name :: "flavour \<Rightarrow> path \<Rightarrow> string \<Rightarrow> exn + path" where
  "with_name fl p n =
     (if path_name fl p = [] then Inl (ValueError ''has an empty name'')
      else if n = [] \<or> n = ''.'' \<or> list_ex (is_sep fl) n then Inl (ValueError ''Invalid name'')
      else Inr (butlast p @ [n]))"

text \<open>\<^verbatim>\<open>p.relative_to(base)\<close>.\<close>

definition relative_to :: "path \<Rightarrow> path \<Rightarrow> exn + path" where
  "relative_to p base =
     (if take (length base) p = base then Inr (drop (length base) p)
      else Inl (ValueError ''is not in the subpath''))"

text \<open>\<^verbatim>\<open>s.replace(a, b)\<close> for single characters.\<close>

definition replace_char :: "char \<Rightarrow> char \<Rightarrow> string \<Rightarrow> string" where
  "replace_char a b s = map (\<lambda>c. if c = a then b else c) s"

text \<open>Names as Gitlab has them in a group or project path and a file system in a
  directory entry: without a separator of either host; a plain name is also neither empty
  nor \<^verbatim>\<open>.\<close>.\<close>

definition no_sep :: "string \<Rightarrow> bool" where
  "no_sep s = (CHR ''/'' \<notin> set s \<and> backslash \<notin> set s)"

definition plain_name :: "string \<Rightarrow> bool" where
  "plain_name s = (s \<noteq> [] \<and> s \<noteq> ''.'' \<and> no_sep s)"

subsection \<open>Shell patterns\<close>

text \<open>
  \<^verbatim>\<open>fnmatch.translate\<close> (as CPython 3.11 has it) turns a shell pattern into a regular
  expression: \<^verbatim>\<open>*\<close> matches any string, \<^verbatim>\<open>?\<close> any character, a bracket expression
  that is closed a class of characters; a bracket that is never closed is the character
  itself, and so is every other character. The pieces of the expression:
\<close>

datatype pat = Star | AnyChar | Lit char | Class bool "(char \<times> char) list" | Never

text \<open>
  The end of a bracket expression: \<open>cs\<close> follows the opening bracket; a \<^verbatim>\<open>!\<close> and then
  a \<^verbatim>\<open>]\<close> at the start do not close it. The result is the index of the closing bracket.
\<close>

definition bracket_end :: "string \<Rightarrow> nat option" where
  "bracket_end cs =
     (let j = (if take 1 cs = ''!'' then 1 else 0);
          j = (if take 1 (drop j cs) = '']'' then Suc j else j);
          j = j + length (takeWhile (\<lambda>c. c \<noteq> CHR '']'') (drop j cs))
      in if j < length cs then Some j else None)"

text \<open>
  The text between the brackets is cut into chunks at the hyphens that stand for a range:
  the search for the first one starts at index \<open>k\<close> (1, or 2 behind a \<^verbatim>\<open>!\<close>), the
  search for the next one two characters behind the last, and a hyphen at the very end stays
  in its chunk.
\<close>

fun chunks :: "nat \<Rightarrow> string \<Rightarrow> string list" where
  "chunks k s =
     (let p = k + length (takeWhile (\<lambda>c. c \<noteq> CHR ''-'') (drop k s)) in
      if length s \<le> Suc p then [s]
      else take p s # chunks 2 (drop (Suc p) s))"

declare chunks.simps [simp del]

text \<open>A range whose start is behind its end is removed with both its ends, from the right
  to the left.\<close>

definition drop_empty_range :: "string \<Rightarrow> string list \<Rightarrow> string list" where
  "drop_empty_range c rest =
     (case rest of
        [] \<Rightarrow> [c]
      | r # rs \<Rightarrow>
          if (of_char (hd r) :: nat) < of_char (last c) then (butlast c @ tl r) # rs
          else c # r # rs)"

text \<open>The chunks are joined again with the hyphen of a range between them; every other
  character, a hyphen inside a chunk too, stands for itself.\<close>

datatype ctok = Ch char | Hy

fun join_chunks :: "string list \<Rightarrow> ctok list" where
  "join_chunks [] = []"
| "join_chunks [c] = map Ch c"
| "join_chunks (c # d # ds) = map Ch c @ Hy # join_chunks (d # ds)"

fun tok_char :: "ctok \<Rightarrow> char" where
  "tok_char (Ch c) = c"
| "tok_char Hy = CHR ''-''"

text \<open>The members of a class of the regular expression, as ranges: a character, the hyphen
  of a range and a character are a range; any other character is itself.\<close>

fun class_items :: "ctok list \<Rightarrow> (char \<times> char) list" where
  "class_items [] = []"
| "class_items [t] = [(tok_char t, tok_char t)]"
| "class_items [t, Hy] = [(tok_char t, tok_char t), (CHR ''-'', CHR ''-'')]"
| "class_items (t # Hy # u # ts) = (tok_char t, tok_char u) # class_items ts"
| "class_items (t # Ch c # ts) = (tok_char t, tok_char t) # class_items (Ch c # ts)"

text \<open>The piece for the text \<open>stuff\<close> between the brackets: nothing left of it never
  matches, a lone \<^verbatim>\<open>!\<close> matches any character, a leading \<^verbatim>\<open>!\<close> negates the
  class.\<close>

definition class_of :: "string \<Rightarrow> pat" where
  "class_of stuff =
     (let toks = join_chunks
            (foldr drop_empty_range (chunks (if take 1 stuff = ''!'' then 2 else 1) stuff) [])
      in if toks = [] then Never
         else if toks = [Ch (CHR ''!'')] then AnyChar
         else if hd toks = Ch (CHR ''!'') then Class True (class_items (tl toks))
         else Class False (class_items toks))"

text \<open>The translation; \<open>skip\<close> characters belong to a bracket expression that has been
  translated already.\<close>

fun translate :: "nat \<Rightarrow> string \<Rightarrow> pat list" where
  "translate skip [] = []"
| "translate skip (c # cs) =
     (if 0 < skip then translate (skip - 1) cs
      else if c = CHR ''*'' then Star # translate 0 cs
      else if c = CHR ''?'' then AnyChar # translate 0 cs
      else if c = CHR ''['' then
        (case bracket_end cs of
           None \<Rightarrow> Lit c # translate 0 cs
         | Some j \<Rightarrow> class_of (take j cs) # translate (Suc j) cs)
      else Lit c # translate 0 cs)"

definition in_class :: "(char \<times> char) list \<Rightarrow> char \<Rightarrow> bool" where
  "in_class items c =
     list_ex (\<lambda>r. (of_char (fst r) :: nat) \<le> of_char c \<and> (of_char c :: nat) \<le> of_char (snd r))
       items"

text \<open>The match of the whole name against the expression.\<close>

fun pat_match :: "pat list \<Rightarrow> string \<Rightarrow> bool" where
  "pat_match [] [] = True"
| "pat_match [] (c # cs) = False"
| "pat_match (p # ps) [] = (p = Star \<and> pat_match ps [])"
| "pat_match (p # ps) (c # cs) =
     (case p of
        Star \<Rightarrow> pat_match ps (c # cs) \<or> pat_match (p # ps) cs
      | AnyChar \<Rightarrow> pat_match ps cs
      | Lit x \<Rightarrow> x = c \<and> pat_match ps cs
      | Class neg items \<Rightarrow> in_class items c \<noteq> neg \<and> pat_match ps cs
      | Never \<Rightarrow> False)"

definition glob_match :: "string \<Rightarrow> string \<Rightarrow> bool" where
  "glob_match pattern name = pat_match (translate 0 pattern) name"

text \<open>\<^verbatim>\<open>fnmatch(name, pattern)\<close>: on Windows both arguments are case-normalised
  first.\<close>

definition lower_char :: "char \<Rightarrow> char" where
  "lower_char c =
     (if (65::nat) \<le> of_char c \<and> of_char c \<le> (90::nat)
      then char_of (of_char c + (32::nat)) else c)"

fun normcase :: "flavour \<Rightarrow> string \<Rightarrow> string" where
  "normcase Posix s = s"
| "normcase Windows s = replace_char (CHR ''/'') backslash (map lower_char s)"

definition fnmatch :: "flavour \<Rightarrow> string \<Rightarrow> string \<Rightarrow> bool" where
  "fnmatch fl name pat = glob_match (normcase fl pat) (normcase fl name)"

text \<open>\<^verbatim>\<open>glob.has_magic\<close> and the hidden names, which a pattern matches only when it
  starts with a dot itself.\<close>

definition has_magic :: "string \<Rightarrow> bool" where
  "has_magic s = list_ex (\<lambda>c. c = CHR ''*'' \<or> c = CHR ''?'' \<or> c = CHR ''['') s"

definition is_hidden :: "string \<Rightarrow> bool" where
  "is_hidden s = (take 1 s = ''.'')"

section \<open>Objects, files and the remote collaborator\<close>

text \<open>A REST object (\<^verbatim>\<open>Project\<close>, \<^verbatim>\<open>Group\<close>) and a JSON dictionary are association
  lists from attribute names to values.\<close>

type_synonym obj = "(string \<times> pyval) list"

text \<open>A file holds raw bytes or a JSON document; \<^verbatim>\<open>json.dump\<close> followed by
  \<^verbatim>\<open>json.load\<close> is taken to give the dictionary back.\<close>

datatype node = Dir | Blob string | Json obj

text \<open>
  The file system is a tree of directories and regular files (it has no symbolic links):
  a list of the nodes with their places, a place being the names on the way from the root
  directory. The root directory (the empty place) always exists.
\<close>

type_synonym filesys = "(path \<times> node) list"

definition fs_lookup :: "filesys \<Rightarrow> path \<Rightarrow> node option" where
  "fs_lookup fs p = (if p = [] then Some Dir else map_of fs p)"

definition fs_put :: "filesys \<Rightarrow> path \<Rightarrow> node \<Rightarrow> filesys" where
  "fs_put fs p n =
     (if map_of fs p = None then fs @ [(p, n)]
      else map (\<lambda>e. if fst e = p then (p, n) else e) fs)"

text \<open>
  The walk of the operating system from the directory at the place \<open>d\<close> along the
  components \<open>cs\<close>: every step starts in a directory, \<^verbatim>\<open>..\<close> goes to the parent
  (the root is its own parent), and no name is longer than \<open>nmax\<close> (\<^verbatim>\<open>NAME_MAX\<close>).
  The result is the place the path stands for, where there may be a node or not; \<open>orig\<close>
  is the path as the program wrote it, for the exception.
\<close>

fun descend :: "nat \<Rightarrow> filesys \<Rightarrow> path \<Rightarrow> path \<Rightarrow> string list \<Rightarrow> exn + path" where
  "descend nmax fs orig d [] = Inr d"
| "descend nmax fs orig d (c # cs) =
     (case fs_lookup fs d of
        None \<Rightarrow> Inl (FileNotFoundError orig)
      | Some Dir \<Rightarrow>
          if c = ''..'' then descend nmax fs orig (butlast d) cs
          else if nmax < length c then Inl (OSError ''File name too long'' orig)
          else descend nmax fs orig (d @ [c]) cs
      | Some _ \<Rightarrow> Inl (NotADirectoryError orig))"

text \<open>The names of the entries of the directory at \<open>d\<close>, in the order of the listing.\<close>

definition is_entry_of :: "path \<Rightarrow> path \<times> node \<Rightarrow> bool" where
  "is_entry_of d e = (fst e \<noteq> [] \<and> butlast (fst e) = d)"

definition file_names :: "filesys \<Rightarrow> path \<Rightarrow> string list" where
  "file_names fs d = map (\<lambda>e. last (fst e)) (filter (\<lambda>e. is_entry_of d e \<and> snd e \<noteq> Dir) fs)"

definition dir_names :: "filesys \<Rightarrow> path \<Rightarrow> string list" where
  "dir_names fs d = map (\<lambda>e. last (fst e)) (filter (\<lambda>e. is_entry_of d e \<and> snd e = Dir) fs)"

definition is_below :: "path \<Rightarrow> path \<times> node \<Rightarrow> bool" where
  "is_below topdir e =
     (snd e = Dir \<and> length topdir < length (fst e) \<and> take (length topdir) (fst e) = topdir)"

text \<open>An API call either answers or raises \<^verbatim>\<open>GitlabError\<close> with a message.\<close>

datatype 'a api = Ok 'a | ApiError string

text \<open>A streamed download writes all the bytes, or some of them before an exception.\<close>

datatype download = Downloaded string | DownloadFailed string exn

text \<open>
  The remote instance is a collaborator whose answers the program cannot influence: a record
  of answer functions. The lookups answer \<open>None\<close> where the client raises
  \<^verbatim>\<open>GitlabGetError\<close>. The status of a job is a function of the number of the fetch.
\<close>

record gitlab =
  groups_get :: "string \<Rightarrow> obj option"
  projects_get :: "string \<Rightarrow> obj option"
  group_export_create :: "obj \<Rightarrow> string api"
  group_export_download :: "obj \<Rightarrow> string api"
  project_export_create :: "obj \<Rightarrow> unit api"
  project_export_status :: "obj \<Rightarrow> nat \<Rightarrow> string api"
  project_export_download :: "obj \<Rightarrow> download"
  project_import :: "node \<Rightarrow> pyval \<Rightarrow> pyval \<Rightarrow> string \<Rightarrow> obj api"
  project_import_status :: "pyval \<Rightarrow> nat \<Rightarrow> (string \<times> string) api"
  group_import :: "node \<Rightarrow> pyval \<Rightarrow> pyval \<Rightarrow> pyval \<Rightarrow> unit api"

text \<open>The fetches number \<open>n\<close>, \<open>n + 1\<close>, ... of a job answer the elements of a list.\<close>

fun answers :: "(nat \<Rightarrow> 'a api) \<Rightarrow> nat \<Rightarrow> 'a list \<Rightarrow> bool" where
  "answers f n [] = True"
| "answers f n (x # xs) = (f n = Ok x \<and> answers f (Suc n) xs)"

section \<open>The world and computations\<close>

datatype level = Info | Warning | Error

datatype api_call =
    GroupsGet string
  | ProjectsGet string
  | GroupExportCreate
  | GroupExportDownload
  | ProjectExportCreate
  | ProjectExportRefresh
  | ProjectExportDownload
  | ProjectImport path pyval pyval string
  | ProjectImportGet pyval
  | ProjectImportRefresh
  | GroupImport path pyval pyval pyval

datatype event = Log level string "string list" | Sleep pyfloat | Call api_call

text \<open>The world of a run: the host's flavour, the place of the current directory, the
  longest file name, the range of the clock and the longest sleep the host allows, the
  files, and the events so far.\<close>

record world =
  os :: flavour
  cwd :: path
  name_max :: nat
  clock_max :: real
  sleep_max :: real
  fs :: filesys
  trace :: "event list"

text \<open>A computation takes the world and gives a value or an exception with the new world;
  \<open>None\<close> stands for a computation that never returns.\<close>

type_synonym 'a comp = "world \<Rightarrow> ((exn + 'a) \<times> world) option"

definition ret :: "'a \<Rightarrow> 'a comp" where
  "ret x w = Some (Inr x, w)"

definition raise :: "exn \<Rightarrow> 'a comp" where
  "raise e w = Some (Inl e, w)"

definition then_do :: "'a comp \<Rightarrow> ('a \<Rightarrow> 'b comp) \<Rightarrow> 'b comp" where
  "then_do m f w =
     (case m w of
        None \<Rightarrow> None
      | Some (Inl e, w') \<Rightarrow> Some (Inl e, w')
      | Some (Inr x, w') \<Rightarrow> f x w')"

definition lift :: "exn + 'a \<Rightarrow> 'a comp" where
  "lift r w = Some (r, w)"

definition emit :: "event \<Rightarrow> unit comp" where
  "emit e w = Some (Inr (), w\<lparr>trace := trace w @ [e]\<rparr>)"

definition log :: "level \<Rightarrow> string \<Rightarrow> string list \<Rightarrow> unit comp" where
  "log lv fmt args = emit (Log lv fmt args)"

text \<open>\<^verbatim>\<open>sleep(d)\<close>: the exception of \<^verbatim>\<open>time.sleep\<close>, or the event of the sleep.\<close>

definition sleep :: "pyfloat \<Rightarrow> unit comp" where
  "sleep d w =
     (case sleep_error (clock_max w) (sleep_max w) d of
        Some e \<Rightarrow> Some (Inl e, w)
      | None \<Rightarrow> emit (Sleep d) w)"

definition call :: "api_call \<Rightarrow> unit comp" where
  "call c = emit (Call c)"

text \<open>A loop over a list: the body runs for each element in turn, an exception ends it.\<close>

fun for_each :: "('a \<Rightarrow> unit comp) \<Rightarrow> 'a list \<Rightarrow> unit comp" where
  "for_each f [] = ret ()"
| "for_each f (x # xs) = then_do (f x) (\<lambda>_. for_each f xs)"

text \<open>The API calls of a trace, in order, and the trace without its log lines.\<close>

fun api_calls :: "event list \<Rightarrow> api_call list" where
  "api_calls [] = []"
| "api_calls (Call c # es) = c # api_calls es"
| "api_calls (e # es) = api_calls es"

fun actions :: "event list \<Rightarrow> event list" where
  "actions [] = []"
| "actions (Log lv fmt args # es) = actions es"
| "actions (e # es) = e # actions es"

text \<open>The events of \<open>k\<close> rounds of a polling loop: a sleep of \<open>d\<close>, then the fetch.\<close>

definition polls :: "pyfloat \<Rightarrow> api_call \<Rightarrow> nat \<Rightarrow> event list" where
  "polls d c k = concat (replicate k [Sleep d, Call c])"

text \<open>\<^verbatim>\<open>getattr(obj, key)\<close> and \<^verbatim>\<open>d[key]\<close>.\<close>

definition getattr :: "obj \<Rightarrow> string \<Rightarrow> pyval comp" where
  "getattr ob k = (case map_of ob k of None \<Rightarrow> raise (AttributeError k) | Some v \<Rightarrow> ret v)"

definition getitem :: "obj \<Rightarrow> string \<Rightarrow> pyval comp" where
  "getitem d k = (case map_of d k of None \<Rightarrow> raise (KeyError k) | Some v \<Rightarrow> ret v)"

text \<open>\<^verbatim>\<open>Path(v)\<close> and \<^verbatim>\<open>p.joinpath(v)\<close> take a string; anything else is a
  \<^verbatim>\<open>TypeError\<close>.\<close>

definition path_of :: "pyval \<Rightarrow> path comp" where
  "path_of v w =
     (case v of PyStr s \<Rightarrow> ret (parse_path (os w) s) w
      | _ \<Rightarrow> raise (TypeError ''expected str, bytes or os.PathLike object'') w)"

subsection \<open>Files of the world\<close>

text \<open>The place a path stands for: the operating system walks an absolute path from the
  root and any other path from the current directory.\<close>

definition locate :: "world \<Rightarrow> path \<Rightarrow> exn + path" where
  "locate w p =
     (if is_absolute (os w) p then descend (name_max w) (fs w) p [] (tl p)
      else descend (name_max w) (fs w) p (cwd w) p)"

text \<open>\<^verbatim>\<open>p.stat()\<close>: the node at the place.\<close>

definition stat :: "world \<Rightarrow> path \<Rightarrow> exn + node" where
  "stat w p =
     (case locate w p of
        Inl e \<Rightarrow> Inl e
      | Inr q \<Rightarrow> (case fs_lookup (fs w) q of None \<Rightarrow> Inl (FileNotFoundError p) | Some n \<Rightarrow> Inr n))"

text \<open>\<^verbatim>\<open>p.exists()\<close>: a missing file or directory on the way is the answer
  \<^verbatim>\<open>False\<close>, any other error of \<^verbatim>\<open>stat\<close> is raised.\<close>

definition path_exists :: "world \<Rightarrow> path \<Rightarrow> exn + bool" where
  "path_exists w p =
     (case stat w p of
        Inr n \<Rightarrow> Inr True
      | Inl (FileNotFoundError q) \<Rightarrow> Inr False
      | Inl (NotADirectoryError q) \<Rightarrow> Inr False
      | Inl e \<Rightarrow> Inl e)"

text \<open>\<^verbatim>\<open>os.path.exists\<close>, \<^verbatim>\<open>os.path.lexists\<close> and \<^verbatim>\<open>os.path.isdir\<close>: every error
  is the answer \<^verbatim>\<open>False\<close>.\<close>

definition lexists :: "world \<Rightarrow> path \<Rightarrow> bool" where
  "lexists w p = (case stat w p of Inr n \<Rightarrow> True | Inl e \<Rightarrow> False)"

definition isdir :: "world \<Rightarrow> path \<Rightarrow> bool" where
  "isdir w p = (stat w p = Inr Dir)"

text \<open>\<^verbatim>\<open>p.open("r")\<close> and reading the whole file.\<close>

definition open_read :: "world \<Rightarrow> path \<Rightarrow> exn + node" where
  "open_read w p =
     (case stat w p of
        Inl e \<Rightarrow> Inl e
      | Inr Dir \<Rightarrow> Inl (IsADirectoryError p)
      | Inr n \<Rightarrow> Inr n)"

definition read_file :: "path \<Rightarrow> node comp" where
  "read_file p w = lift (open_read w p) w"

text \<open>\<^verbatim>\<open>p.open("w")\<close> creates or truncates the file at the place of \<open>p\<close>, which is
  the result (the open file); \<open>put_file\<close> writes \<open>n\<close> into the open file, and
  \<open>write_file\<close> does both in a row.\<close>

definition open_write :: "world \<Rightarrow> path \<Rightarrow> exn + path" where
  "open_write w p =
     (case locate w p of
        Inl e \<Rightarrow> Inl e
      | Inr q \<Rightarrow> if fs_lookup (fs w) q = Some Dir then Inl (IsADirectoryError p) else Inr q)"

definition open_file_w :: "path \<Rightarrow> path comp" where
  "open_file_w p w =
     (case open_write w p of
        Inl e \<Rightarrow> Some (Inl e, w)
      | Inr q \<Rightarrow> Some (Inr q, w\<lparr>fs := fs_put (fs w) q (Blob [])\<rparr>))"

definition put_file :: "path \<Rightarrow> node \<Rightarrow> unit comp" where
  "put_file q n w = Some (Inr (), w\<lparr>fs := fs_put (fs w) q n\<rparr>)"

definition write_file :: "path \<Rightarrow> node \<Rightarrow> unit comp" where
  "write_file p n = then_do (open_file_w p) (\<lambda>q. put_file q n)"

text \<open>\<^verbatim>\<open>os.mkdir(p)\<close>.\<close>

definition mkdir :: "path \<Rightarrow> unit comp" where
  "mkdir p w =
     (case locate w p of
        Inl e \<Rightarrow> Some (Inl e, w)
      | Inr q \<Rightarrow>
          (case fs_lookup (fs w) q of
             None \<Rightarrow> Some (Inr (), w\<lparr>fs := fs_put (fs w) q Dir\<rparr>)
           | Some n \<Rightarrow> Some (Inl (FileExistsError p), w)))"

text \<open>
  \<^verbatim>\<open>os.makedirs(p, exist_ok=True)\<close>: every head of the path that does not exist is
  made, the shortest first, and then the path itself, where the error of \<^verbatim>\<open>mkdir\<close> is
  dropped when the path is a directory.
\<close>

definition make_head :: "path \<Rightarrow> unit comp" where
  "make_head h w = (if lexists w h then ret () w else mkdir h w)"

definition make_dirs :: "path \<Rightarrow> unit comp" where
  "make_dirs p =
     then_do (for_each make_head (map (\<lambda>n. take n p) [1..<length p])) (\<lambda>_. (\<lambda>w.
       (case mkdir p w of
          Some (Inl e, w') \<Rightarrow> if isdir w' p then Some (Inr (), w') else Some (Inl e, w')
        | r \<Rightarrow> r)))"

text \<open>\<^verbatim>\<open>p.stat().st_size\<close>; only the size of raw bytes is modelled.\<close>

definition stat_size :: "path \<Rightarrow> nat comp" where
  "stat_size p w =
     (case stat w p of
        Inl e \<Rightarrow> raise e w
      | Inr (Blob bytes) \<Rightarrow> ret (length bytes) w
      | Inr n \<Rightarrow> ret 0 w)"

text \<open>
  \<^verbatim>\<open>os.walk(top)\<close>: one triple per directory at or below \<open>topdir\<close>, \<open>topdir\<close> first, each
  named by \<open>topdir\<close> and the names below it; nothing when \<open>topdir\<close> is not a directory.
  The order of the other directories is the listing's.
\<close>

definition walk :: "world \<Rightarrow> path \<Rightarrow> (path \<times> string list \<times> string list) list" where
  "walk w topdir =
     (case locate w topdir of
        Inl e \<Rightarrow> []
      | Inr q \<Rightarrow>
          if fs_lookup (fs w) q = Some Dir
          then map (\<lambda>d. (topdir @ drop (length q) d, dir_names (fs w) d, file_names (fs w) d))
                 (q # map fst (filter (is_below q) (fs w)))
          else [])"

text \<open>
  \<^verbatim>\<open>p.resolve()\<close>: the absolute path of \<open>p\<close>, by the names alone (\<^verbatim>\<open>..\<close> takes the
  last name away, whether it is a directory or not). Without symbolic links it never
  raises.
\<close>

fun collapse :: "path \<Rightarrow> string list \<Rightarrow> path" where
  "collapse d [] = d"
| "collapse d (c # cs) = collapse (if c = ''..'' then butlast d else d @ [c]) cs"

definition resolve :: "world \<Rightarrow> path \<Rightarrow> path" where
  "resolve w p =
     [sep_char (os w)] # (if is_absolute (os w) p then collapse [] (tl p) else collapse (cwd w) p)"

text \<open>The names of \<^verbatim>\<open>os.scandir(d)\<close>, of the directories alone when \<open>dironly\<close> is set;
  nothing when \<open>d\<close> cannot be listed.\<close>

definition listdir :: "world \<Rightarrow> path \<Rightarrow> bool \<Rightarrow> string list" where
  "listdir w d dironly =
     (case locate w d of
        Inl e \<Rightarrow> []
      | Inr q \<Rightarrow>
          if fs_lookup (fs w) q = Some Dir
          then map (\<lambda>e. last (fst e))
                 (filter (\<lambda>e. is_entry_of q e \<and> (if dironly then snd e = Dir else True)) (fs w))
          else [])"

text \<open>\<^verbatim>\<open>glob._glob1\<close> (a pattern in the directory \<open>dirname\<close>) and \<^verbatim>\<open>glob._glob0\<close>
  (a name in it).\<close>

definition glob1 :: "world \<Rightarrow> path \<Rightarrow> string \<Rightarrow> bool \<Rightarrow> string list" where
  "glob1 w dirname pattern dironly =
     filter (\<lambda>x. fnmatch (os w) x pattern)
       (filter (\<lambda>x. if is_hidden pattern then True else \<not> is_hidden x)
          (listdir w dirname dironly))"

definition glob0 :: "world \<Rightarrow> path \<Rightarrow> string \<Rightarrow> string list" where
  "glob0 w dirname basename = (if lexists w (dirname @ [basename]) then [basename] else [])"

text \<open>
  \<^verbatim>\<open>glob._iglob\<close> for the absolute path with the root \<open>r\<close> whose other components
  are \<open>rev_parts\<close>, the last one first. The directories are the matches of the path without
  its last component when that has a wildcard, and that path itself, unchecked, otherwise;
  the last component is matched in each of them.
\<close>

fun iglob_parts :: "world \<Rightarrow> string \<Rightarrow> string list \<Rightarrow> bool \<Rightarrow> path list" where
  "iglob_parts w r [] dironly = [[r]]"
| "iglob_parts w r (basename # rev_dir) dironly =
     concat (map (\<lambda>d. map (\<lambda>n. d @ [n])
                   (if has_magic basename then glob1 w d basename dironly
                    else glob0 w d basename))
       (if list_ex has_magic rev_dir then iglob_parts w r rev_dir True
        else [r # rev rev_dir]))"

text \<open>\<^verbatim>\<open>iglob(str(p))\<close> for an absolute path \<open>p\<close>.\<close>

definition iglob :: "world \<Rightarrow> path \<Rightarrow> path list" where
  "iglob w p = (case p of [] \<Rightarrow> [] | r # parts \<Rightarrow> iglob_parts w r (rev parts) False)"

text \<open>\<^verbatim>\<open>str(ex)\<close> for a log line.\<close>

fun str_exn :: "exn \<Rightarrow> string" where
  "str_exn (AssertionError m) = m"
| "str_exn (RuntimeError m) = m"
| "str_exn (AttributeError m) = m"
| "str_exn (KeyError m) = m"
| "str_exn (TypeError m) = m"
| "str_exn (ValueError m) = m"
| "str_exn (OverflowError m) = m"
| "str_exn StopIteration = []"
| "str_exn (FileNotFoundError p) = join ''/'' p"
| "str_exn (IsADirectoryError p) = join ''/'' p"
| "str_exn (NotADirectoryError p) = join ''/'' p"
| "str_exn (FileExistsError p) = join ''/'' p"
| "str_exn (OSError m p) = m @ '': '' @ join ''/'' p"
| "str_exn (JSONDecodeError p) = join ''/'' p"
| "str_exn (GitlabError m) = m"

section \<open>The orchestrator object\<close>

record 'gl gie =
  gl :: 'gl
  delay_seconds :: pyfloat
  export_folder :: path

text \<open>\<^verbatim>\<open>GitlabImportExport.__init__\<close>: the assertion precedes the assignments.\<close>

definition init :: "'gl \<Rightarrow> path \<Rightarrow> pyfloat \<Rightarrow> exn + 'gl gie" where
  "init g folder delay =
     (if float_ge delay 1
      then Inr \<lparr>gl = g, delay_seconds = delay, export_folder = folder\<rparr>
      else Inl (AssertionError ''Delay between download checks must be a meaningful duration!''))"

subsection \<open>Exceptions of the remote calls\<close>

text \<open>The answer of an API call as a computation: an error is a raised
  \<^verbatim>\<open>GitlabError\<close>.\<close>

definition api_result :: "'a api \<Rightarrow> 'a comp" where
  "api_result r = (case r of Ok x \<Rightarrow> ret x | ApiError msg \<Rightarrow> raise (GitlabError msg))"

text \<open>\<^verbatim>\<open>try: m except GitlabError as ex: h(ex.error_message)\<close>.\<close>

definition catch_gitlab :: "'a comp \<Rightarrow> (string \<Rightarrow> 'a comp) \<Rightarrow> 'a comp" where
  "catch_gitlab m h w =
     (case m w of
        None \<Rightarrow> None
      | Some (Inl (GitlabError msg), w') \<Rightarrow> h msg w'
      | Some (Inl e, w') \<Rightarrow> Some (Inl e, w')
      | Some (Inr x, w') \<Rightarrow> Some (Inr x, w'))"

text \<open>\<^verbatim>\<open>try: m except Exception as ex: h(ex)\<close>.\<close>

definition catch_all :: "'a comp \<Rightarrow> (exn \<Rightarrow> 'a comp) \<Rightarrow> 'a comp" where
  "catch_all m h w =
     (case m w of
        None \<Rightarrow> None
      | Some (Inl e, w') \<Rightarrow> h e w'
      | Some (Inr x, w') \<Rightarrow> Some (Inr x, w'))"

subsection \<open>Helpers\<close>

definition METADATA_FILENAME :: string where
  "METADATA_FILENAME = ''metadata.json''"

definition FILENAME_PATTERN_GROUP :: string where
  "FILENAME_PATTERN_GROUP = ''group_*.tar.gz''"

definition FILENAME_PATTERN_PROJECT :: string where
  "FILENAME_PATTERN_PROJECT = ''project_*.tar.gz''"

text \<open>\<^verbatim>\<open>get_project\<close> and \<^verbatim>\<open>get_group\<close>: \<^verbatim>\<open>GitlabGetError\<close> becomes
  \<^verbatim>\<open>None\<close>.\<close>

definition get_project :: "gitlab gie \<Rightarrow> string \<Rightarrow> obj option comp" where
  "get_project self path_with_namespace =
     then_do (call (ProjectsGet path_with_namespace))
       (\<lambda>_. ret (projects_get (gl self) path_with_namespace))"

definition get_group :: "gitlab gie \<Rightarrow> string \<Rightarrow> obj option comp" where
  "get_group self gitlab_path =
     then_do (call (GroupsGet gitlab_path)) (\<lambda>_. ret (groups_get (gl self) gitlab_path))"

text \<open>\<^verbatim>\<open>__get_filepath_group_metadata\<close>.\<close>

definition get_filepath_group_metadata :: "flavour \<Rightarrow> path \<Rightarrow> path" where
  "get_filepath_group_metadata fl p = joinpath fl p (parse_path fl METADATA_FILENAME)"

text \<open>\<^verbatim>\<open>__get_filepath_project_metadata\<close>.\<close>

definition get_filepath_project_metadata :: "flavour \<Rightarrow> path \<Rightarrow> exn + path" where
  "get_filepath_project_metadata fl p = with_name fl p (path_name fl p @ ''.json'')"

text \<open>\<^verbatim>\<open>__check_is_export_folder\<close>.\<close>

definition check_is_export_folder :: "path \<Rightarrow> unit comp" where
  "check_is_export_folder p w =
     (case path_exists w (get_filepath_group_metadata (os w) p) of
        Inl e \<Rightarrow> raise e w
      | Inr found \<Rightarrow>
          if \<not> found then raise (RuntimeError ''Path has no metadata file 'metadata.json'!'') w
          else ret () w)"

text \<open>
  \<^verbatim>\<open>__get_group_exportfile\<close>: \<^verbatim>\<open>next\<close> of the iterator of the glob of the whole
  resolved path, so a wildcard character in a name of the folder's own path is a wildcard
  too. The result is an absolute path (\<^verbatim>\<open>Path\<close> of the string gives the components
  back).
\<close>

definition get_group_exportfile :: "path \<Rightarrow> path comp" where
  "get_group_exportfile p w =
     (case iglob w (resolve w (joinpath (os w) p (parse_path (os w) ''group_*.tar.gz''))) of
        [] \<Rightarrow> raise StopIteration w
      | f # _ \<Rightarrow> ret f w)"

text \<open>\<^verbatim>\<open>_write_metadata_file\<close>.\<close>

definition metadata_keys :: "string list" where
  "metadata_keys =
     [''id'', ''parent_id'', ''created_at'', ''name'', ''full_name'', ''path'', ''full_path'']"

definition collect_metadata :: "obj \<Rightarrow> obj" where
  "collect_metadata ob =
     concat (map (\<lambda>k. case map_of ob k of None \<Rightarrow> [] | Some v \<Rightarrow> [(k, v)]) metadata_keys)"

definition write_metadata_file :: "obj \<Rightarrow> path \<Rightarrow> unit comp" where
  "write_metadata_file ob filepath =
     (let metadata = collect_metadata ob in
      if map_of metadata ''name'' = None then raise (AssertionError [])
      else if map_of metadata ''path'' = None then raise (AssertionError [])
      else write_file filepath (Json metadata))"

text \<open>\<^verbatim>\<open>_read_metadata_file\<close>.\<close>

definition read_metadata_file :: "path \<Rightarrow> obj comp" where
  "read_metadata_file filepath =
     then_do (read_file filepath)
       (\<lambda>n. case n of Json d \<Rightarrow> ret d | _ \<Rightarrow> raise (JSONDecodeError filepath))"

subsection \<open>Export\<close>

text \<open>
  The loop of \<^verbatim>\<open>export_project\<close>:
  \<^verbatim>\<open>while exporter and exporter.export_status != 'finished': sleep(...); exporter.refresh()\<close>.
  The exporter is a REST object, which is always true in a condition; its state is the
  status of the last fetch and the number of the next one. A sleep that \<^verbatim>\<open>time.sleep\<close>
  refuses raises its exception before the fetch, a failed refresh raises
  \<^verbatim>\<open>GitlabError\<close>. The result is the status the loop left with.
\<close>

partial_function (option) export_wait ::
  "gitlab gie \<Rightarrow> obj \<Rightarrow> string \<Rightarrow> nat \<Rightarrow> world \<Rightarrow> ((exn + string) \<times> world) option" where
  "export_wait self project export_status n w =
     (if export_status \<noteq> ''finished'' then
        (case sleep_error (clock_max w) (sleep_max w) (delay_seconds self) of
           Some e \<Rightarrow> Some (Inl e, w)
         | None \<Rightarrow>
             (case project_export_status (gl self) project n of
                ApiError msg \<Rightarrow>
                  Some (Inl (GitlabError msg),
                    w\<lparr>trace := trace w @ [Sleep (delay_seconds self), Call ProjectExportRefresh]\<rparr>)
              | Ok st \<Rightarrow>
                  export_wait self project st (Suc n)
                    (w\<lparr>trace := trace w @
                       [Sleep (delay_seconds self), Call ProjectExportRefresh]\<rparr>)))
      else Some (Inr export_status, w))"

declare export_wait.simps [code]

text \<open>The archive's file name, \<^verbatim>\<open>f"project_{project.path}.tar.gz"\<close>.\<close>

definition project_archive_name :: "pyval \<Rightarrow> string" where
  "project_archive_name ppath = ''project_'' @ py_str ppath @ ''.tar.gz''"

text \<open>The \<^verbatim>\<open>try\<close> block of the download in \<^verbatim>\<open>export_project\<close>, with its
  \<^verbatim>\<open>except Exception\<close>.\<close>

definition download_export :: "gitlab gie \<Rightarrow> obj \<Rightarrow> pyval \<Rightarrow> path \<Rightarrow> unit comp" where
  "download_export self project ppath output_filepath_project =
     catch_all
       (then_do (open_file_w output_filepath_project) (\<lambda>fout.
        then_do (call ProjectExportDownload) (\<lambda>_.
        (case project_export_download (gl self) project of
           Downloaded bytes \<Rightarrow>
             then_do (put_file fout (Blob bytes)) (\<lambda>_.
             log Info (''Download finished for '%s'' @ [CHR 0x27]) [py_str ppath])
         | DownloadFailed bytes e \<Rightarrow>
             then_do (put_file fout (Blob bytes)) (\<lambda>_.
             raise e)))))
       (\<lambda>e. log Error ''Problem while downloading: %s'' [str_exn e])"

text \<open>The download and the metadata file of \<^verbatim>\<open>export_project\<close> (from the comment
  on \<^verbatim>\<open>project.path\<close> to the end of the method).\<close>

definition export_project_download :: "gitlab gie \<Rightarrow> obj \<Rightarrow> path \<Rightarrow> unit comp" where
  "export_project_download self project output_path =
     then_do (getattr project ''path'') (\<lambda>ppath. (\<lambda>w.
       (let output_filepath_project =
              joinpath (os w) output_path (parse_path (os w) (project_archive_name ppath))
        in
        then_do (log Info ''Downloading export for '%s': %s''
                   [py_str ppath, str_path (os w) (resolve w output_filepath_project)]) (\<lambda>_.
        then_do (download_export self project ppath output_filepath_project) (\<lambda>_.
        then_do (lift (get_filepath_project_metadata (os w) output_filepath_project)) (\<lambda>meta.
        write_metadata_file project meta)))) w))"

text \<open>\<^verbatim>\<open>export_project\<close>. An \<^verbatim>\<open>except\<close> block that returns gives \<open>None\<close> (or
  \<open>False\<close>) to the code after it.\<close>

definition export_project :: "gitlab gie \<Rightarrow> obj \<Rightarrow> path option \<Rightarrow> unit comp" where
  "export_project self project output_path_arg =
     (let output_path = (case output_path_arg of None \<Rightarrow> export_folder self | Some p \<Rightarrow> p) in
      then_do (getattr project ''path_with_namespace'') (\<lambda>pwn.
      then_do (getattr project ''id'') (\<lambda>pid.
      then_do (getattr project ''name'') (\<lambda>pname.
      then_do (log Info ''Project export for '%s' (%d, '%s')...''
                 [py_str pwn, py_str pid, py_str pname]) (\<lambda>_.
      then_do (catch_gitlab
                 (then_do (call ProjectExportCreate) (\<lambda>_.
                  then_do (api_result (project_export_create (gl self) project)) (\<lambda>_.
                  then_do (call ProjectExportRefresh) (\<lambda>_.
                  then_do (api_result (project_export_status (gl self) project 0)) (\<lambda>st.
                  ret (Some st))))))
                 (\<lambda>msg.
                  then_do (getattr project ''path'') (\<lambda>ppath.
                  then_do (log Error ''Problem creating export for '%s': %s''
                             [py_str ppath, msg]) (\<lambda>_.
                  ret None)))) (\<lambda>exporter.
      (case exporter of
         None \<Rightarrow> ret ()
       | Some st \<Rightarrow>
           then_do (catch_gitlab
                      (then_do (export_wait self project st 1) (\<lambda>_. ret True))
                      (\<lambda>msg.
                       then_do (getattr project ''path'') (\<lambda>ppath.
                       then_do (log Error ''Problem getting status for '%s': %s''
                                  [py_str ppath, msg]) (\<lambda>_.
                       ret False)))) (\<lambda>finished.
           if finished then export_project_download self project output_path
           else ret ()))))))))"

text \<open>\<^verbatim>\<open>_export_group\<close>. It changes \<^verbatim>\<open>self.export_folder\<close>, so the result carries the
  updated object. \<^verbatim>\<open>exporter\<close> stays \<^verbatim>\<open>None\<close> when the creation fails.\<close>

definition export_group :: "gitlab gie \<Rightarrow> string \<Rightarrow> (obj \<times> gitlab gie) comp" where
  "export_group self gitlab_path =
     then_do (get_group self gitlab_path) (\<lambda>found.
     (case found of
        None \<Rightarrow> raise (RuntimeError (''No such group: '' @ gitlab_path))
      | Some grp \<Rightarrow>
          then_do (getattr grp ''name'') (\<lambda>gname.
          then_do (getattr grp ''path'') (\<lambda>gpath.
          then_do (log Info ''Creating group export for '%s' (path '%s') ...''
                     [py_str gname, py_str gpath]) (\<lambda>_.
          then_do (catch_gitlab
                     (then_do (call GroupExportCreate) (\<lambda>_.
                      then_do (api_result (group_export_create (gl self) grp)) (\<lambda>message.
                      ret (Some message))))
                     (\<lambda>msg.
                      then_do (log Error ''Problem creating export: %s'' [msg]) (\<lambda>_.
                      ret None))) (\<lambda>exporter.
          then_do (sleep (delay_seconds self)) (\<lambda>_.
          then_do (path_of gpath) (\<lambda>gparts. (\<lambda>w.
            (let self' = self\<lparr>export_folder := joinpath (os w) (export_folder self) gparts\<rparr>;
                 output_file =
                   joinpath (os w) (export_folder self')
                     (parse_path (os w) (''group_'' @ py_str gpath @ ''.tar.gz''))
             in
             then_do (make_dirs (export_folder self')) (\<lambda>_.
             then_do (log Info ''Downloading group export to '%s' ...''
                        [str_path (os w) (resolve w output_file)]) (\<lambda>_.
             then_do (open_file_w output_file) (\<lambda>fout.
             (case exporter of
                None \<Rightarrow> raise (AttributeError ''download'')
              | Some message \<Rightarrow>
                  then_do (call GroupExportDownload) (\<lambda>_.
                  then_do (api_result (group_export_download (gl self) grp)) (\<lambda>bytes.
                  then_do (put_file fout (Blob bytes)) (\<lambda>_.
                  then_do (write_metadata_file grp
                             (get_filepath_group_metadata (os w) (export_folder self'))) (\<lambda>_.
                  then_do (log Info ''Group export finished for '%s' (%s)''
                             [py_str gpath, message]) (\<lambda>_.
                  ret (grp, self'))))))))))) w)))))))))"

subsection \<open>Import\<close>

text \<open>\<^verbatim>\<open>__import_project_upload\<close>.\<close>

definition import_project_upload ::
  "gitlab gie \<Rightarrow> path \<Rightarrow> pyval \<Rightarrow> pyval \<Rightarrow> string \<Rightarrow> pyval comp" where
  "import_project_upload self filepath name slug namespace =
     then_do (read_file filepath) (\<lambda>fin.
     catch_gitlab
       (then_do (call (ProjectImport filepath name slug namespace)) (\<lambda>_.
        then_do (api_result (project_import (gl self) fin name slug namespace)) (\<lambda>result.
        then_do (getitem result ''id'') (\<lambda>import_id.
        then_do (log Info ''Upload done. Remote import job is now in progress (id:%d)''
                   [py_str import_id]) (\<lambda>_.
        ret import_id)))))
       (\<lambda>msg.
        then_do (log Error ''Problem importing project '%s': %s''
                   [namespace @ ''/'' @ py_str slug, msg]) (\<lambda>_.
        ret PyNone)))"

text \<open>
  The loop of \<^verbatim>\<open>__import_project_wait_done\<close>:
  \<^verbatim>\<open>while importer.import_status != "finished": sleep(...); importer.refresh()\<close>.
  An importer is its status and its \<^verbatim>\<open>path_with_namespace\<close>.
\<close>

partial_function (option) import_wait ::
  "gitlab gie \<Rightarrow> pyval \<Rightarrow> string \<times> string \<Rightarrow> nat \<Rightarrow> world
     \<Rightarrow> ((exn + string \<times> string) \<times> world) option" where
  "import_wait self import_id importer n w =
     (if fst importer \<noteq> ''finished'' then
        (case sleep_error (clock_max w) (sleep_max w) (delay_seconds self) of
           Some e \<Rightarrow> Some (Inl e, w)
         | None \<Rightarrow>
             (case project_import_status (gl self) import_id n of
                ApiError msg \<Rightarrow>
                  Some (Inl (GitlabError msg),
                    w\<lparr>trace := trace w @ [Sleep (delay_seconds self), Call ProjectImportRefresh]\<rparr>)
              | Ok st \<Rightarrow>
                  import_wait self import_id st (Suc n)
                    (w\<lparr>trace := trace w @
                       [Sleep (delay_seconds self), Call ProjectImportRefresh]\<rparr>)))
      else Some (Inr importer, w))"

declare import_wait.simps [code]

text \<open>\<^verbatim>\<open>__import_project_wait_done\<close>.\<close>

definition import_project_wait_done :: "gitlab gie \<Rightarrow> pyval \<Rightarrow> unit comp" where
  "import_project_wait_done self import_id =
     catch_gitlab
       (then_do (call (ProjectImportGet import_id)) (\<lambda>_.
        then_do (api_result (project_import_status (gl self) import_id 0)) (\<lambda>importer.
        then_do (import_wait self import_id importer 1) (\<lambda>importer.
        log Info (''Import finished of '%s'' @ [CHR 0x27]) [snd importer]))))
       (\<lambda>msg. log Error ''Problem importing project: %s'' [msg])"

text \<open>\<^verbatim>\<open>import_project\<close>.\<close>

definition import_project ::
  "gitlab gie \<Rightarrow> path \<Rightarrow> pyval \<Rightarrow> pyval \<Rightarrow> string \<Rightarrow> unit comp" where
  "import_project self filepath name slug namespace =
     then_do (import_project_upload self filepath name slug namespace) (\<lambda>import_id.
     if truthy import_id then import_project_wait_done self import_id else ret ())"

text \<open>\<^verbatim>\<open>_import_project\<close> (the private method; the prime tells it from the public
  one).\<close>

definition import_project' :: "gitlab gie \<Rightarrow> path \<Rightarrow> string \<Rightarrow> unit comp" where
  "import_project' self filepath namespace = (\<lambda>w.
     then_do (lift (get_filepath_project_metadata (os w) filepath)) (\<lambda>meta.
     then_do (read_metadata_file meta) (\<lambda>metadata.
     then_do (getitem metadata ''path'') (\<lambda>slug.
     then_do (getitem metadata ''name'') (\<lambda>name.
     (let path_with_namespace = namespace @ ''/'' @ py_str slug in
      then_do (get_project self path_with_namespace) (\<lambda>existing.
      (case existing of
         Some _ \<Rightarrow>
           log Warning ''Skipping already existing project: %s'' [path_with_namespace]
       | None \<Rightarrow>
           then_do (stat_size filepath) (\<lambda>st_size.
           then_do (log Info ''Importing project '%s' (%d MB) to '%s' ...''
                      [py_str name, str_nat (st_size div 1048576), path_with_namespace]) (\<lambda>_.
           import_project self filepath name slug namespace))))))))) w)"

text \<open>The namespace of a directory \<open>rootdir\<close> of the walk, as \<^verbatim>\<open>_import_projects\<close> computes
  it (from \<^verbatim>\<open>root_relative\<close> to the prepended Gitlab root).\<close>

definition namespace_of :: "flavour \<Rightarrow> pyval \<Rightarrow> pyval \<Rightarrow> path \<Rightarrow> path \<Rightarrow> exn + string" where
  "namespace_of fl main_group_path gitlab_root folder rootdir =
     (case relative_to rootdir folder of
        Inl e \<Rightarrow> Inl e
      | Inr root_relative \<Rightarrow>
          (case main_group_path of
             PyStr s \<Rightarrow>
               (let namespace = str_path fl (joinpath fl (parse_path fl s) root_relative);
                    namespace = replace_char backslash (CHR ''/'') namespace
                in Inr (if truthy gitlab_root then py_str gitlab_root @ ''/'' @ namespace
                        else namespace))
           | _ \<Rightarrow> Inl (TypeError ''expected str, bytes or os.PathLike object'')))"

text \<open>The body of the inner loop of \<^verbatim>\<open>_import_projects\<close>, for one file name.\<close>

definition import_projects_file :: "gitlab gie \<Rightarrow> path \<Rightarrow> string \<Rightarrow> string \<Rightarrow> unit comp" where
  "import_projects_file self rootdir namespace filename = (\<lambda>w.
     if fnmatch (os w) filename ''*.json'' \<or> fnmatch (os w) filename FILENAME_PATTERN_GROUP
     then ret () w
     else if \<not> fnmatch (os w) filename FILENAME_PATTERN_PROJECT
     then log Warning ''Skipping non-project archive: %s'' [filename] w
     else import_project' self (joinpath (os w) rootdir (parse_path (os w) filename)) namespace w)"

text \<open>The body of the outer loop, for one triple of the walk.\<close>

definition import_projects_dir ::
  "gitlab gie \<Rightarrow> pyval \<Rightarrow> pyval \<Rightarrow> path \<times> string list \<times> string list \<Rightarrow> unit comp" where
  "import_projects_dir self gitlab_root main_group_path entry = (\<lambda>w.
     then_do (lift (namespace_of (os w) main_group_path gitlab_root (export_folder self)
                      (fst entry))) (\<lambda>namespace.
     for_each (import_projects_file self (fst entry) namespace) (snd (snd entry))) w)"

text \<open>\<^verbatim>\<open>_import_projects\<close>. The imports do not change the files, so the walk is the one
  of the file system at the start of the loop.\<close>

definition import_projects :: "gitlab gie \<Rightarrow> pyval \<Rightarrow> unit comp" where
  "import_projects self gitlab_root = (\<lambda>w.
     then_do (read_metadata_file
                (get_filepath_group_metadata (os w) (export_folder self))) (\<lambda>metadata.
     then_do (getitem metadata ''path'') (\<lambda>main_group_path.
     for_each (import_projects_dir self gitlab_root main_group_path)
       (walk w (export_folder self)))) w)"

text \<open>\<^verbatim>\<open>_import_groups\<close>. The search for the parent gives \<open>None\<close> where the method
  returns \<^verbatim>\<open>False\<close>, and the parent id (\<^verbatim>\<open>None\<close> without a Gitlab root) otherwise.\<close>

definition find_parent :: "gitlab gie \<Rightarrow> pyval \<Rightarrow> pyval option comp" where
  "find_parent self gitlab_root =
     (if truthy gitlab_root then
        then_do (get_group self (py_str gitlab_root)) (\<lambda>found.
        (case found of
           Some grp \<Rightarrow>
             then_do (getattr grp ''id'') (\<lambda>gitlab_group_parent_id.
             then_do (getattr grp ''name'') (\<lambda>gname.
             then_do (log Info ''Parent group found: %s (%d, '%s')''
                        [py_str gitlab_root, py_str gitlab_group_parent_id, py_str gname]) (\<lambda>_.
             ret (Some gitlab_group_parent_id))))
         | None \<Rightarrow>
             then_do (log Error
                        ''No such group '%s' (for this access token)! (make sure it exists!)''
                        [py_str gitlab_root]) (\<lambda>_.
             ret None)))
      else ret (Some PyNone))"

definition import_groups :: "gitlab gie \<Rightarrow> pyval \<Rightarrow> bool comp" where
  "import_groups self gitlab_root =
     then_do (check_is_export_folder (export_folder self)) (\<lambda>_. (\<lambda>w.
     then_do (read_metadata_file
                (get_filepath_group_metadata (os w) (export_folder self))) (\<lambda>metadata.
     then_do (getitem metadata ''name'') (\<lambda>main_group_name.
     then_do (getitem metadata ''path'') (\<lambda>main_group_path.
     then_do (find_parent self gitlab_root) (\<lambda>parent.
     (case parent of
        None \<Rightarrow> ret False
      | Some gitlab_group_parent_id \<Rightarrow>
          then_do (if truthy gitlab_group_parent_id
                   then log Info
                          ''Importing group '%s' with path '%s' as subgroup of parent_id=%s ...''
                          [py_str main_group_name, py_str main_group_path,
                           py_str gitlab_group_parent_id]
                   else log Info ''Importing group '%s' with path '%s' ...''
                          [py_str main_group_name, py_str main_group_path]) (\<lambda>_.
          then_do (get_group_exportfile (export_folder self)) (\<lambda>export_file.
          then_do (log Info ''Loading from file '%s' ...'' [str_path (os w) export_file]) (\<lambda>_.
          then_do (read_file export_file) (\<lambda>fin.
          then_do (call (GroupImport export_file main_group_path main_group_name
                           (PyStr (py_str gitlab_group_parent_id)))) (\<lambda>_.
          then_do (api_result (group_import (gl self) fin main_group_path main_group_name
                                 (PyStr (py_str gitlab_group_parent_id)))) (\<lambda>_.
          then_do (log Info ''Group import of '%s' done.'' [py_str main_group_name]) (\<lambda>_.
          ret True)))))))))))) w))"

text \<open>\<^verbatim>\<open>importing\<close>.\<close>

definition importing :: "gitlab gie \<Rightarrow> pyval \<Rightarrow> bool \<Rightarrow> unit comp" where
  "importing self gitlab_path no_groups =
     (if \<not> no_groups then
        then_do (import_groups self gitlab_path) (\<lambda>result.
        if \<not> result then ret () else import_projects self gitlab_path)
      else import_projects self gitlab_path)"

section \<open>A concrete scenario\<close>

text \<open>
  The export tree of the root group \<^verbatim>\<open>teamA\<close> with project \<^verbatim>\<open>svc1\<close> and subgroup
  \<^verbatim>\<open>sub1\<close> with project \<^verbatim>\<open>svc2\<close>, in the directory \<^verbatim>\<open>exp\<close> of the current directory
  \<^verbatim>\<open>/work\<close>, and a remote instance that knows the groups \<^verbatim>\<open>teamA\<close> and
  \<^verbatim>\<open>destgrp\<close> and the project \<^verbatim>\<open>destgrp/teamA/svc1\<close>, refuses to create group exports,
  and reports every job as started twice and finished from the third fetch on. The host is
  a Linux with names of up to 255 bytes and a clock of 64-bit nanoseconds.
\<close>

definition teamA_tree :: filesys where
  "teamA_tree =
     [([''work''], Dir),
      ([''work'', ''exp''], Dir),
      ([''work'', ''exp'', ''metadata.json''],
         Json [(''id'', PyInt 5), (''name'', PyStr ''Team A''), (''path'', PyStr ''teamA'')]),
      ([''work'', ''exp'', ''group_teamA.tar.gz''], Blob ''group-archive''),
      ([''work'', ''exp'', ''project_svc1.tar.gz''], Blob ''svc1-archive''),
      ([''work'', ''exp'', ''project_svc1.tar.gz.json''],
         Json [(''id'', PyInt 11), (''name'', PyStr ''Service 1''), (''path'', PyStr ''svc1'')]),
      ([''work'', ''exp'', ''sub1''], Dir),
      ([''work'', ''exp'', ''sub1'', ''metadata.json''],
         Json [(''id'', PyInt 6), (''name'', PyStr ''Sub 1''), (''path'', PyStr ''sub1'')]),
      ([''work'', ''exp'', ''sub1'', ''project_svc2.tar.gz''], Blob ''svc2-archive''),
      ([''work'', ''exp'', ''sub1'', ''project_svc2.tar.gz.json''],
         Json [(''id'', PyInt 12), (''name'', PyStr ''Service 2''), (''path'', PyStr ''svc2'')])]"

definition teamA_group :: obj where
  "teamA_group =
     [(''id'', PyInt 5), (''parent_id'', PyNone), (''name'', PyStr ''Team A''),
      (''path'', PyStr ''teamA''), (''full_path'', PyStr ''teamA'')]"

definition svc1_project :: obj where
  "svc1_project =
     [(''id'', PyInt 11), (''name'', PyStr ''Service 1''), (''path'', PyStr ''svc1''),
      (''path_with_namespace'', PyStr ''teamA/svc1'')]"

definition scenario_remote :: gitlab where
  "scenario_remote =
     \<lparr>groups_get =
        (\<lambda>p. if p = ''teamA'' then Some teamA_group
             else if p = ''destgrp'' then Some [(''id'', PyInt 42), (''name'', PyStr ''Dest'')]
             else None),
      projects_get = (\<lambda>p. if p = ''destgrp/teamA/svc1'' then Some svc1_project else None),
      group_export_create = (\<lambda>_. ApiError ''403 Forbidden''),
      group_export_download = (\<lambda>_. Ok ''group-archive''),
      project_export_create = (\<lambda>_. Ok ()),
      project_export_status = (\<lambda>_ n. if n < 2 then Ok ''started'' else Ok ''finished''),
      project_export_download = (\<lambda>_. Downloaded ''svc1-archive''),
      project_import = (\<lambda>_ _ _ _. Ok [(''id'', PyInt 7)]),
      project_import_status =
        (\<lambda>_ n. if n < 2 then Ok (''started'', ''destgrp/teamA/sub1/svc2'')
               else Ok (''finished'', ''destgrp/teamA/sub1/svc2'')),
      group_import = (\<lambda>_ _ _ _. Ok ())\<rparr>"

definition import_self :: "gitlab gie" where
  "import_self = \<lparr>gl = scenario_remote, delay_seconds = Fin 15, export_folder = [''exp'']\<rparr>"

definition import_world :: world where
  "import_world =
     \<lparr>os = Posix, cwd = [''work''], name_max = 255, clock_max = 9223372036,
      sleep_max = 9223000000,
      fs = teamA_tree, trace = []\<rparr>"

definition export_self :: "gitlab gie" where
  "export_self = \<lparr>gl = scenario_remote, delay_seconds = Fin 15, export_folder = [''out'']\<rparr>"

definition export_world :: world where
  "export_world =
     \<lparr>os = Posix, cwd = [''work''], name_max = 255, clock_max = 9223372036,
      sleep_max = 9223000000,
      fs = [([''work''], Dir), ([''work'', ''out''], Dir)], trace = []\<rparr>"

text \<open>
  The directory \<^verbatim>\<open>exp[1]\<close>, whose name is a pattern for the name \<^verbatim>\<open>exp1\<close> of its
  neighbour: it has a metadata file and no group archive, the neighbour has the archive of
  another group.
\<close>

definition bracket_world :: world where
  "bracket_world =
     \<lparr>os = Posix, cwd = [''work''], name_max = 255, clock_max = 9223372036,
      sleep_max = 9223000000,
      fs = [([''work''], Dir),
            ([''work'', ''exp[1]''], Dir),
            ([''work'', ''exp[1]'', ''metadata.json''],
               Json [(''id'', PyInt 5), (''name'', PyStr ''Team A''), (''path'', PyStr ''teamA'')]),
            ([''work'', ''exp1''], Dir),
            ([''work'', ''exp1'', ''group_other.tar.gz''], Blob ''other-archive'')],
      trace = []\<rparr>"

text \<open>A project whose path has 236 characters, as Gitlab allows: the name of its archive
  has 251 and the name of the metadata file beside it 256.\<close>

definition long_project :: obj where
  "long_project =
     [(''id'', PyInt 13), (''name'', PyStr ''Long''),
      (''path'', PyStr (replicate 236 (CHR ''a''))),
      (''path_with_namespace'', PyStr (''teamA/'' @ replicate 236 (CHR ''a'')))]"
section \<open>Theorems\<close>

subsection \<open>Sequencing\<close>

lemma then_do_Inr: "m w = Some (Inr x, w') \<Longrightarrow> then_do m f w = f x w'"
  by (simp add: then_do_def)

lemma then_do_Inl: "m w = Some (Inl e, w') \<Longrightarrow> then_do m f w = Some (Inl e, w')"
  by (simp add: then_do_def)

lemma then_do_InlE:
  assumes "then_do m f w = Some (Inl e, w')"
  obtains "m w = Some (Inl e, w')"
  | x w1 where "m w = Some (Inr x, w1)" and "f x w1 = Some (Inl e, w')"
  using assms by (auto simp: then_do_def split: option.splits sum.splits prod.splits)

lemmas comp_defs =
  then_do_def ret_def raise_def lift_def emit_def log_def call_def Let_def

lemma emit_not_Inl [simp]: "emit ev w \<noteq> Some (Inl e, w')"
  by (simp add: emit_def)

lemma log_not_Inl [simp]: "log lv fmt args w \<noteq> Some (Inl e, w')"
  by (simp add: log_def)

lemma call_not_Inl [simp]: "call c w \<noteq> Some (Inl e, w')"
  by (simp add: call_def)

lemma ret_not_Inl [simp]: "ret x w \<noteq> Some (Inl e, w')"
  by (simp add: ret_def)

lemma descend_not_runtime [simp]: "descend nmax files orig d cs \<noteq> Inl (RuntimeError m)"
  by (induction cs arbitrary: d) (auto split: option.splits node.splits)

lemma locate_not_runtime [simp]: "locate w p \<noteq> Inl (RuntimeError m)"
  by (simp add: locate_def)

lemma stat_not_runtime [simp]: "stat w p \<noteq> Inl (RuntimeError m)"
  by (auto simp: stat_def split: sum.splits option.splits)

lemma open_read_not_runtime [simp]: "open_read w p \<noteq> Inl (RuntimeError m)"
  by (auto simp: open_read_def split: sum.splits node.splits)

lemma read_file_not_runtime [simp]: "read_file p w \<noteq> Some (Inl (RuntimeError m), w')"
  by (simp add: read_file_def lift_def)

lemma read_metadata_file_not_runtime [simp]:
  "read_metadata_file p w \<noteq> Some (Inl (RuntimeError m), w')"
  by (auto simp: read_metadata_file_def ret_def raise_def elim!: then_do_InlE split: node.splits)

lemma getitem_not_runtime [simp]: "getitem d k w \<noteq> Some (Inl (RuntimeError m), w')"
  by (auto simp: getitem_def ret_def raise_def split: option.splits)

lemma getattr_not_runtime [simp]: "getattr d k w \<noteq> Some (Inl (RuntimeError m), w')"
  by (auto simp: getattr_def ret_def raise_def split: option.splits)

lemma api_result_not_runtime [simp]: "api_result r w \<noteq> Some (Inl (RuntimeError m), w')"
  by (auto simp: api_result_def ret_def raise_def split: api.splits)

lemma get_group_not_Inl [simp]: "get_group self p w \<noteq> Some (Inl e, w')"
  by (auto simp: get_group_def elim!: then_do_InlE)

lemma get_group_exportfile_not_runtime [simp]:
  "get_group_exportfile p w \<noteq> Some (Inl (RuntimeError m), w')"
  by (auto simp: get_group_exportfile_def ret_def raise_def split: list.splits)

lemma find_parent_not_runtime [simp]:
  "find_parent self r w \<noteq> Some (Inl (RuntimeError m), w')"
  by (auto simp: find_parent_def elim!: then_do_InlE split: if_splits option.splits)

lemma check_is_export_folder_present:
  "path_exists w (get_filepath_group_metadata (os w) p) = Inr True \<Longrightarrow>
   check_is_export_folder p w = Some (Inr (), w)"
  by (simp add: check_is_export_folder_def ret_def)

lemma check_is_export_folder_missing:
  "path_exists w (get_filepath_group_metadata (os w) p) = Inr False \<Longrightarrow>
   check_is_export_folder p w =
     Some (Inl (RuntimeError ''Path has no metadata file 'metadata.json'!''), w)"
  by (simp add: check_is_export_folder_def raise_def)

lemma check_is_export_folder_error:
  "path_exists w (get_filepath_group_metadata (os w) p) = Inl e \<Longrightarrow>
   check_is_export_folder p w = Some (Inl e, w)"
  by (simp add: check_is_export_folder_def raise_def)

lemma import_groups_not_runtime:
  assumes "path_exists w (get_filepath_group_metadata (os w) (export_folder self)) = Inr True"
  shows "import_groups self gitlab_root w \<noteq> Some (Inl (RuntimeError m), w')"
proof
  assume a: "import_groups self gitlab_root w = Some (Inl (RuntimeError m), w')"
  note chk = check_is_export_folder_present [OF assms]
  from a show False
    unfolding import_groups_def
    by (auto simp: chk elim!: then_do_InlE split: option.splits if_splits)
qed

lemma import_groups_missing:
  "path_exists w (get_filepath_group_metadata (os w) (export_folder self)) = Inr False \<Longrightarrow>
   import_groups self gitlab_root w =
     Some (Inl (RuntimeError ''Path has no metadata file 'metadata.json'!''), w)"
  by (simp add: import_groups_def then_do_Inl [OF check_is_export_folder_missing])

lemma import_groups_error:
  "path_exists w (get_filepath_group_metadata (os w) (export_folder self)) = Inl e \<Longrightarrow>
   import_groups self gitlab_root w = Some (Inl e, w)"
  by (simp add: import_groups_def then_do_Inl [OF check_is_export_folder_error])

lemma api_calls_append [simp]: "api_calls (xs @ ys) = api_calls xs @ api_calls ys"
  by (induction xs rule: api_calls.induct) simp_all

lemma actions_append [simp]: "actions (xs @ ys) = actions xs @ actions ys"
  by (induction xs rule: actions.induct) simp_all

text \<open>The walk\<close>

lemma descend_orig:
  "descend nmax files o1 d cs = Inr q \<Longrightarrow> descend nmax files o2 d cs = Inr q"
  by (induction cs arbitrary: d) (auto split: option.splits node.splits if_splits)

lemma descend_append:
  "descend nmax files orig d (xs @ ys) =
     (case descend nmax files orig d xs of
        Inl e \<Rightarrow> Inl e
      | Inr d' \<Rightarrow> descend nmax files orig d' ys)"
  by (induction xs arbitrary: d) (auto split: option.splits node.splits)

lemma descend_name:
  "n \<noteq> ''..'' \<Longrightarrow>
   descend nmax files orig d [n] =
     (case fs_lookup files d of
        None \<Rightarrow> Inl (FileNotFoundError orig)
      | Some Dir \<Rightarrow> if nmax < length n then Inl (OSError ''File name too long'' orig)
                    else Inr (d @ [n])
      | Some _ \<Rightarrow> Inl (NotADirectoryError orig))"
  by (auto split: option.splits node.splits)
subsection \<open>Paths of plain names\<close>

lemma is_sep_cases: "is_sep fl c \<Longrightarrow> c = CHR ''/'' \<or> c = backslash"
  by (cases fl) auto

lemma is_sep_sep_char [simp]: "is_sep fl (sep_char fl)"
  by (cases fl) simp_all

lemma split_on_none: "\<forall>c\<in>set s. \<not> P c \<Longrightarrow> split_on P s = [s]"
  by (induction s) auto

lemma no_sep_not_is_sep: "no_sep s \<Longrightarrow> c \<in> set s \<Longrightarrow> \<not> is_sep fl c"
  using is_sep_cases by (auto simp: no_sep_def)

lemma parse_path_plain: "plain_name s \<Longrightarrow> parse_path fl s = [s]"
proof -
  assume p: "plain_name s"
  then have ns: "no_sep s" and ne: "s \<noteq> []" and nd: "s \<noteq> ''.''"
    by (simp_all add: plain_name_def)
  have sp: "split_on (is_sep fl) s = [s]"
    using no_sep_not_is_sep [OF ns] by (intro split_on_none) blast
  from ne obtain c cs where s: "s = c # cs" by (cases s) auto
  then have "\<not> is_sep fl c" using no_sep_not_is_sep [OF ns, of c] by simp
  with s sp ne nd show ?thesis
    by (simp add: parse_path_def is_part_def)
qed

lemma plain_not_sep: "plain_name s \<Longrightarrow> s \<noteq> [sep_char fl]"
  using no_sep_not_is_sep [of s "sep_char fl" fl] by (auto simp: plain_name_def)

lemma not_absolute_plain: "list_all plain_name ps \<Longrightarrow> \<not> is_absolute fl ps"
  using plain_not_sep by (cases ps) (auto simp: is_absolute_def)

lemma relative_to_append: "relative_to (folder @ comps) folder = Inr comps"
  by (simp add: relative_to_def)

lemma replace_char_absent: "a \<notin> set s \<Longrightarrow> replace_char a b s = s"
  by (induction s) (auto simp: replace_char_def)

lemma replace_char_append: "replace_char a b (s @ t) = replace_char a b s @ replace_char a b t"
  by (simp add: replace_char_def)

lemma map_join: "map f (join [c] ps) = join [f c] (map (map f) ps)"
  by (induction "[c]" ps rule: join.induct) simp_all

lemma replace_char_join:
  "replace_char a b (join [c] ps) = join [if c = a then b else c] (map (replace_char a b) ps)"
  unfolding replace_char_def by (rule map_join)

lemma normalise_join:
  assumes "list_all plain_name ps"
  shows "replace_char backslash (CHR ''/'') (join [sep_char fl] ps) = join ''/'' ps"
proof -
  have "map (replace_char backslash (CHR ''/'')) ps = ps"
    using assms
    by (induction ps) (auto simp: plain_name_def no_sep_def replace_char_absent)
  moreover have "(if sep_char fl = backslash then CHR ''/'' else sep_char fl) = CHR ''/''"
    by (cases fl) (simp_all add: backslash_def)
  ultimately show ?thesis
    by (simp add: replace_char_join)
qed

lemma namespace_of_plain:
  assumes r: "plain_name r" and cs: "list_all plain_name comps"
  shows "namespace_of fl (PyStr r) gitlab_root folder (folder @ comps) =
     Inr ((if truthy gitlab_root then py_str gitlab_root @ ''/'' else []) @ join ''/'' (r # comps))"
proof -
  have all: "list_all plain_name (r # comps)" using r cs by simp
  have j: "joinpath fl (parse_path fl r) comps = r # comps"
    using not_absolute_plain [OF cs] by (simp add: joinpath_def parse_path_plain [OF r])
  have s: "str_path fl (r # comps) = join [sep_char fl] (r # comps)"
    using not_absolute_plain [OF all] by (simp add: str_path_def)
  show ?thesis
    by (simp add: namespace_of_def relative_to_append j s normalise_join [OF all] Let_def
        del: join.simps)
qed
subsection \<open>The walk of the operating system\<close>

lemma plain_metadata: "plain_name METADATA_FILENAME"
  by (simp add: METADATA_FILENAME_def plain_name_def no_sep_def backslash_def)

lemma joinpath_plain: "plain_name n \<Longrightarrow> joinpath fl p (parse_path fl n) = p @ [n]"
  using plain_not_sep [of n fl] by (simp add: parse_path_plain joinpath_def is_absolute_def)

lemma metadata_path: "get_filepath_group_metadata fl p = p @ [METADATA_FILENAME]"
  by (simp add: get_filepath_group_metadata_def joinpath_plain [OF plain_metadata])

lemma is_absolute_snoc: "n \<noteq> [sep_char fl] \<Longrightarrow> is_absolute fl (p @ [n]) = is_absolute fl p"
  by (cases p) (simp_all add: is_absolute_def)

lemma locate_child:
  assumes "locate w p = Inr d" and "n \<noteq> [sep_char (os w)]"
  shows "locate w (p @ [n]) = descend (name_max w) (fs w) (p @ [n]) d [n]"
proof (cases "is_absolute (os w) p")
  case True
  then have ne: "p \<noteq> []" by (auto simp: is_absolute_def)
  from True assms(1) have "descend (name_max w) (fs w) p [] (tl p) = Inr d"
    by (simp add: locate_def)
  then have "descend (name_max w) (fs w) (p @ [n]) [] (tl p) = Inr d"
    by (rule descend_orig)
  with True ne show ?thesis
    by (simp add: locate_def is_absolute_snoc [OF assms(2)] descend_append)
next
  case False
  with assms(1) have "descend (name_max w) (fs w) p (cwd w) p = Inr d"
    by (simp add: locate_def)
  then have "descend (name_max w) (fs w) (p @ [n]) (cwd w) p = Inr d"
    by (rule descend_orig)
  with False show ?thesis
    by (simp add: locate_def is_absolute_snoc [OF assms(2)] descend_append)
qed

lemma locate_child_Inr:
  assumes "locate w (p @ [n]) = Inr q" and "n \<noteq> ''..''" and "n \<noteq> [sep_char (os w)]"
  shows "\<exists>d. locate w p = Inr d \<and> fs_lookup (fs w) d = Some Dir \<and> length n \<le> name_max w
           \<and> q = d @ [n]"
proof -
  have "\<exists>d. locate w p = Inr d"
  proof (cases "is_absolute (os w) p")
    case True
    then have ne: "p \<noteq> []" by (auto simp: is_absolute_def)
    with True assms(1) show ?thesis
      by (auto simp: locate_def is_absolute_snoc [OF assms(3)] descend_append
          split: sum.splits intro: descend_orig)
  next
    case False
    with assms(1) show ?thesis
      by (auto simp: locate_def is_absolute_snoc [OF assms(3)] descend_append
          split: sum.splits intro: descend_orig)
  qed
  then obtain d where d: "locate w p = Inr d" by (elim exE)
  from assms(1) have "descend (name_max w) (fs w) (p @ [n]) d [n] = Inr q"
    by (simp add: locate_child [OF d assms(3)])
  with assms(2) have "fs_lookup (fs w) d = Some Dir \<and> length n \<le> name_max w \<and> q = d @ [n]"
    by (auto simp: descend_name split: option.splits node.splits if_splits)
  with d show ?thesis by (intro exI [of _ d]) simp
qed

lemma stat_dir_child:
  assumes "stat w p = Inr Dir" and "n \<noteq> ''..''" and "n \<noteq> [sep_char (os w)]"
    and "length n \<le> name_max w"
  shows "\<exists>d. locate w p = Inr d \<and> locate w (p @ [n]) = Inr (d @ [n])"
proof -
  from assms(1) obtain d where d: "locate w p = Inr d" and l: "fs_lookup (fs w) d = Some Dir"
    by (auto simp: stat_def split: sum.splits option.splits)
  have "locate w (p @ [n]) = Inr (d @ [n])"
    using assms(2,4) l by (simp add: locate_child [OF d assms(3)] descend_name)
  with d show ?thesis by (intro exI [of _ d]) simp
qed

lemma descend_error_path:
  "descend nmax files orig d cs = Inl (FileNotFoundError q) \<Longrightarrow> q = orig"
  "descend nmax files orig d cs = Inl (NotADirectoryError q) \<Longrightarrow> q = orig"
  by (induction cs arbitrary: d) (auto split: option.splits node.splits if_splits)

lemma stat_error_path:
  "stat w p = Inl (FileNotFoundError q) \<Longrightarrow> q = p"
  "stat w p = Inl (NotADirectoryError q) \<Longrightarrow> q = p"
  by (auto simp: stat_def locate_def split: sum.splits option.splits if_splits
      dest: descend_error_path)

lemma path_exists_False:
  assumes "path_exists w p = Inr False"
  shows "stat w p = Inl (FileNotFoundError p) \<or> stat w p = Inl (NotADirectoryError p)"
  using assms stat_error_path [of w p]
  by (auto simp: path_exists_def split: sum.splits exn.splits)
subsection \<open>Reading the metadata file\<close>

lemma open_read_stat_error: "stat w p = Inl e \<Longrightarrow> open_read w p = Inl e"
  by (simp add: open_read_def)

lemma read_metadata_file_error:
  "stat w p = Inl e \<Longrightarrow> read_metadata_file p w = Some (Inl e, w)"
  by (simp add: read_metadata_file_def read_file_def open_read_stat_error comp_defs)

lemma read_metadata_file_Json:
  "open_read w p = Inr (Json d) \<Longrightarrow> read_metadata_file p w = Some (Inr d, w)"
  by (simp add: read_metadata_file_def read_file_def comp_defs)

lemma open_read_exists: "open_read w p = Inr n \<Longrightarrow> path_exists w p = Inr True"
  by (auto simp: open_read_def path_exists_def split: sum.splits node.splits)

lemma import_projects_error:
  "stat w (get_filepath_group_metadata (os w) (export_folder self)) = Inl e \<Longrightarrow>
   import_projects self gitlab_root w = Some (Inl e, w)"
  by (simp add: import_projects_def then_do_Inl [OF read_metadata_file_error])

lemma path_exists_in_dir:
  assumes "stat w p = Inr Dir" and "n \<noteq> ''..''" and "n \<noteq> [sep_char (os w)]"
  shows "(length n \<le> name_max w \<longrightarrow> (\<exists>b. path_exists w (p @ [n]) = Inr b))
       \<and> (path_exists w (p @ [n]) = Inr False \<longrightarrow> stat w (p @ [n]) = Inl (FileNotFoundError (p @ [n])))"
proof -
  from assms(1) obtain d where d: "locate w p = Inr d" and l: "fs_lookup (fs w) d = Some Dir"
    by (auto simp: stat_def split: sum.splits option.splits)
  have loc: "locate w (p @ [n]) =
      (if name_max w < length n then Inl (OSError ''File name too long'' (p @ [n]))
       else Inr (d @ [n]))"
    using assms(2) l by (simp add: locate_child [OF d assms(3)] descend_name)
  show ?thesis
    by (auto simp: path_exists_def stat_def loc split: option.splits)
qed
subsection \<open>The polling loops\<close>

lemma export_wait_finished:
  assumes "export_wait self project st n w = Some y"
  shows "\<forall>st' w'. y = (Inr st', w') \<longrightarrow> st' = ''finished''"
  by (rule export_wait.raw_induct
        [where P = "\<lambda>self project st n w y.
           \<forall>st' w'. y = (Inr st', w') \<longrightarrow> st' = ''finished''",
         OF _ assms])
     (auto split: if_splits api.splits option.splits)

lemma import_wait_finished:
  assumes "import_wait self import_id importer n w = Some y"
  shows "\<forall>imp w'. y = (Inr imp, w') \<longrightarrow> fst imp = ''finished''"
  by (rule import_wait.raw_induct
        [where P = "\<lambda>self import_id importer n w y.
           \<forall>imp w'. y = (Inr imp, w') \<longrightarrow> fst imp = ''finished''",
         OF _ assms])
     (auto split: if_splits api.splits option.splits)

lemma polls_Suc: "polls d c (Suc k) = [Sleep d, Call c] @ polls d c k"
  by (simp add: polls_def)

lemma export_wait_polls:
  assumes "export_wait self project st n w = Some y"
  shows "\<exists>k. snd y = w\<lparr>trace := trace w @ polls (delay_seconds self) ProjectExportRefresh k\<rparr>"
proof (rule export_wait.raw_induct
        [where P = "\<lambda>self project st n w y.
           \<exists>k. snd y = w\<lparr>trace := trace w @ polls (delay_seconds self) ProjectExportRefresh k\<rparr>",
         OF _ assms])
  fix f self project export_status n w y
  assume IH: "\<And>self project export_status n w y. f self project export_status n w = Some y \<Longrightarrow>
           \<exists>k. snd y = w\<lparr>trace := trace w @ polls (delay_seconds self) ProjectExportRefresh k\<rparr>"
    and step: "(if export_status \<noteq> ''finished''
       then case sleep_error (clock_max w) (sleep_max w) (delay_seconds self) of
            None \<Rightarrow>
              (case project_export_status (gl self) project n of
                 Ok st \<Rightarrow> f self project st (Suc n)
                   (w\<lparr>trace := trace w @ [Sleep (delay_seconds self), Call ProjectExportRefresh]\<rparr>)
               | ApiError msg \<Rightarrow> Some (Inl (GitlabError msg),
                   w\<lparr>trace := trace w @ [Sleep (delay_seconds self), Call ProjectExportRefresh]\<rparr>))
            | Some e \<Rightarrow> Some (Inl e, w)
       else Some (Inr export_status, w)) = Some y"
  let ?d = "delay_seconds self"
  have zero: "w = w\<lparr>trace := trace w @ polls ?d ProjectExportRefresh 0\<rparr>"
    by (simp add: polls_def)
  show "\<exists>k. snd y = w\<lparr>trace := trace w @ polls ?d ProjectExportRefresh k\<rparr>"
  proof (cases "export_status = ''finished''")
    case True
    with step have "snd y = w" by auto
    with zero have "snd y = w\<lparr>trace := trace w @ polls ?d ProjectExportRefresh 0\<rparr>" by simp
    then show ?thesis by (rule exI)
  next
    case False
    show ?thesis
    proof (cases "sleep_error (clock_max w) (sleep_max w) ?d")
      case (Some e)
      with False step have "snd y = w" by auto
      with zero have "snd y = w\<lparr>trace := trace w @ polls ?d ProjectExportRefresh 0\<rparr>" by simp
      then show ?thesis by (rule exI)
    next
      case None
      show ?thesis
      proof (cases "project_export_status (gl self) project n")
        case (Ok st)
        with False None step have "f self project st (Suc n)
            (w\<lparr>trace := trace w @ [Sleep ?d, Call ProjectExportRefresh]\<rparr>) = Some y"
          by simp
        from IH [OF this] obtain k where
          "snd y = w\<lparr>trace := trace w @ [Sleep ?d, Call ProjectExportRefresh]\<rparr>
             \<lparr>trace := trace (w\<lparr>trace := trace w @ [Sleep ?d, Call ProjectExportRefresh]\<rparr>) @
                polls ?d ProjectExportRefresh k\<rparr>"
          by (elim exE)
        then have "snd y = w\<lparr>trace := trace w @ polls ?d ProjectExportRefresh (Suc k)\<rparr>"
          by (simp add: polls_def)
        then show ?thesis by (rule exI)
      next
        case (ApiError msg)
        with False None step
        have "snd y = w\<lparr>trace := trace w @ polls ?d ProjectExportRefresh 1\<rparr>"
          by (auto simp: polls_def)
        then show ?thesis by (rule exI)
      qed
    qed
  qed
qed

lemma import_wait_polls:
  assumes "import_wait self import_id importer n w = Some y"
  shows "\<exists>k. snd y = w\<lparr>trace := trace w @ polls (delay_seconds self) ProjectImportRefresh k\<rparr>"
proof (rule import_wait.raw_induct
        [where P = "\<lambda>self import_id importer n w y.
           \<exists>k. snd y = w\<lparr>trace := trace w @ polls (delay_seconds self) ProjectImportRefresh k\<rparr>",
         OF _ assms])
  fix f self import_id importer n w y
  assume IH: "\<And>self import_id importer n w y. f self import_id importer n w = Some y \<Longrightarrow>
           \<exists>k. snd y = w\<lparr>trace := trace w @ polls (delay_seconds self) ProjectImportRefresh k\<rparr>"
    and step: "(if fst importer \<noteq> ''finished''
       then case sleep_error (clock_max w) (sleep_max w) (delay_seconds self) of
            None \<Rightarrow>
              (case project_import_status (gl self) import_id n of
                 Ok st \<Rightarrow> f self import_id st (Suc n)
                   (w\<lparr>trace := trace w @ [Sleep (delay_seconds self), Call ProjectImportRefresh]\<rparr>)
               | ApiError msg \<Rightarrow> Some (Inl (GitlabError msg),
                   w\<lparr>trace := trace w @ [Sleep (delay_seconds self), Call ProjectImportRefresh]\<rparr>))
            | Some e \<Rightarrow> Some (Inl e, w)
       else Some (Inr importer, w)) = Some y"
  let ?d = "delay_seconds self"
  have zero: "w = w\<lparr>trace := trace w @ polls ?d ProjectImportRefresh 0\<rparr>"
    by (simp add: polls_def)
  show "\<exists>k. snd y = w\<lparr>trace := trace w @ polls ?d ProjectImportRefresh k\<rparr>"
  proof (cases "fst importer = ''finished''")
    case True
    with step have "snd y = w" by auto
    with zero have "snd y = w\<lparr>trace := trace w @ polls ?d ProjectImportRefresh 0\<rparr>" by simp
    then show ?thesis by (rule exI)
  next
    case False
    show ?thesis
    proof (cases "sleep_error (clock_max w) (sleep_max w) ?d")
      case (Some e)
      with False step have "snd y = w" by auto
      with zero have "snd y = w\<lparr>trace := trace w @ polls ?d ProjectImportRefresh 0\<rparr>" by simp
      then show ?thesis by (rule exI)
    next
      case None
      show ?thesis
      proof (cases "project_import_status (gl self) import_id n")
        case (Ok st)
        with False None step have "f self import_id st (Suc n)
            (w\<lparr>trace := trace w @ [Sleep ?d, Call ProjectImportRefresh]\<rparr>) = Some y"
          by simp
        from IH [OF this] obtain k where
          "snd y = w\<lparr>trace := trace w @ [Sleep ?d, Call ProjectImportRefresh]\<rparr>
             \<lparr>trace := trace (w\<lparr>trace := trace w @ [Sleep ?d, Call ProjectImportRefresh]\<rparr>) @
                polls ?d ProjectImportRefresh k\<rparr>"
          by (elim exE)
        then have "snd y = w\<lparr>trace := trace w @ polls ?d ProjectImportRefresh (Suc k)\<rparr>"
          by (simp add: polls_def)
        then show ?thesis by (rule exI)
      next
        case (ApiError msg)
        with False None step
        have "snd y = w\<lparr>trace := trace w @ polls ?d ProjectImportRefresh 1\<rparr>"
          by (auto simp: polls_def)
        then show ?thesis by (rule exI)
      qed
    qed
  qed
qed

lemma export_wait_rounds:
  assumes "sleep_error (clock_max w) (sleep_max w) (delay_seconds self) = None"
    and "st \<noteq> ''finished''"
    and "list_all (\<lambda>s. s \<noteq> ''finished'') sts"
    and "answers (project_export_status (gl self) project) n (sts @ [''finished''])"
  shows "export_wait self project st n w =
     Some (Inr ''finished'',
       w\<lparr>trace := trace w @
          polls (delay_seconds self) ProjectExportRefresh (Suc (length sts))\<rparr>)"
  using assms
proof (induction sts arbitrary: st n w)
  case Nil
  then show ?case
    apply (subst export_wait.simps)
    apply (simp add: polls_def)
    apply (subst export_wait.simps)
    apply simp
    done
next
  case (Cons s sts)
  let ?w = "w\<lparr>trace := trace w @ [Sleep (delay_seconds self), Call ProjectExportRefresh]\<rparr>"
  have sl: "sleep_error (clock_max ?w) (sleep_max ?w) (delay_seconds self) = None"
    using Cons.prems(1) by simp
  have ih: "export_wait self project s (Suc n) ?w =
     Some (Inr ''finished'',
       ?w\<lparr>trace := trace ?w @
          polls (delay_seconds self) ProjectExportRefresh (Suc (length sts))\<rparr>)"
    using Cons.prems(3,4) by (intro Cons.IH [OF sl]) simp_all
  show ?case
    using Cons.prems(1,2,4)
    apply (subst export_wait.simps)
    apply (simp add: ih)
    apply (simp add: polls_def)
    done
qed

lemma import_wait_rounds:
  assumes "sleep_error (clock_max w) (sleep_max w) (delay_seconds self) = None"
    and "fst importer \<noteq> ''finished''"
    and "list_all (\<lambda>s. fst s \<noteq> ''finished'') sts"
    and "answers (project_import_status (gl self) import_id) n (sts @ [(''finished'', p)])"
  shows "import_wait self import_id importer n w =
     Some (Inr (''finished'', p),
       w\<lparr>trace := trace w @
          polls (delay_seconds self) ProjectImportRefresh (Suc (length sts))\<rparr>)"
  using assms
proof (induction sts arbitrary: importer n w)
  case Nil
  then show ?case
    apply (subst import_wait.simps)
    apply (simp add: polls_def)
    apply (subst import_wait.simps)
    apply simp
    done
next
  case (Cons s sts)
  let ?w = "w\<lparr>trace := trace w @ [Sleep (delay_seconds self), Call ProjectImportRefresh]\<rparr>"
  have sl: "sleep_error (clock_max ?w) (sleep_max ?w) (delay_seconds self) = None"
    using Cons.prems(1) by simp
  have ih: "import_wait self import_id s (Suc n) ?w =
     Some (Inr (''finished'', p),
       ?w\<lparr>trace := trace ?w @
          polls (delay_seconds self) ProjectImportRefresh (Suc (length sts))\<rparr>)"
    using Cons.prems(3,4) by (intro Cons.IH [OF sl]) simp_all
  show ?case
    using Cons.prems(1,2,4)
    apply (subst import_wait.simps)
    apply (simp add: ih)
    apply (simp add: polls_def)
    done
qed

lemma export_wait_refused:
  "sleep_error (clock_max w) (sleep_max w) (delay_seconds self) = Some e \<Longrightarrow>
   st \<noteq> ''finished'' \<Longrightarrow> export_wait self project st n w = Some (Inl e, w)"
  by (subst export_wait.simps) simp

lemma import_wait_refused:
  "sleep_error (clock_max w) (sleep_max w) (delay_seconds self) = Some e \<Longrightarrow>
   fst importer \<noteq> ''finished'' \<Longrightarrow> import_wait self import_id importer n w = Some (Inl e, w)"
  by (subst import_wait.simps) simp

lemma sleep_error_None:
  "sleep_error cmax smax d = None \<longleftrightarrow> (\<exists>r. d = Fin r \<and> 0 \<le> r \<and> r \<le> cmax \<and> r \<le> smax)"
  by (cases d) (auto simp: sleep_error_def)
subsection \<open>The export of a project\<close>

lemma locate_trace [simp]: "locate (w\<lparr>trace := t\<rparr>) p = locate w p"
  by (simp add: locate_def)

lemma open_write_trace [simp]: "open_write (w\<lparr>trace := t\<rparr>) p = open_write w p"
  by (simp add: open_write_def cong: sum.case_cong)

lemma resolve_trace [simp]: "resolve (w\<lparr>trace := t\<rparr>) p = resolve w p"
  by (simp add: resolve_def)

lemma export_wait_scenario:
  assumes "sleep_error (clock_max w) (sleep_max w) (delay_seconds self) = None"
    and "project_export_status (gl self) project 1 = Ok ''started''"
    and "project_export_status (gl self) project 2 = Ok ''finished''"
  shows "export_wait self project ''started'' 1 w =
    Some (Inr ''finished'', w\<lparr>trace := trace w @
       [Sleep (delay_seconds self), Call ProjectExportRefresh,
        Sleep (delay_seconds self), Call ProjectExportRefresh]\<rparr>)"
  using export_wait_rounds [OF assms(1), of "''started''" "[''started'']" project 1] assms(2,3)
  by (simp add: polls_def numeral_2_eq_2)

lemma import_wait_scenario:
  assumes "sleep_error (clock_max w) (sleep_max w) (delay_seconds self) = None"
    and "project_import_status (gl self) import_id 1 = Ok (''started'', pb)"
    and "project_import_status (gl self) import_id 2 = Ok (''finished'', pc)"
  shows "import_wait self import_id (''started'', pa) 1 w =
    Some (Inr (''finished'', pc), w\<lparr>trace := trace w @
       [Sleep (delay_seconds self), Call ProjectImportRefresh,
        Sleep (delay_seconds self), Call ProjectImportRefresh]\<rparr>)"
  using import_wait_rounds [OF assms(1), of "(''started'', pa)" "[(''started'', pb)]"
      import_id 1 pc] assms(2,3)
  by (simp add: polls_def numeral_2_eq_2)

lemma export_project_scenario:
  assumes sl: "sleep_error (clock_max w) (sleep_max w) (delay_seconds self) = None"
    and "map_of project ''path_with_namespace'' = Some pwn"
    and "map_of project ''id'' = Some pid"
    and "map_of project ''name'' = Some pname"
    and "project_export_create (gl self) project = Ok ()"
    and "project_export_status (gl self) project 0 = Ok ''started''"
    and s1: "project_export_status (gl self) project 1 = Ok ''started''"
    and s2: "project_export_status (gl self) project 2 = Ok ''finished''"
  shows "export_project self project output_path_arg w =
     export_project_download self project
       (case output_path_arg of None \<Rightarrow> export_folder self | Some p \<Rightarrow> p)
       (w\<lparr>trace := trace w @
          [Log Info ''Project export for '%s' (%d, '%s')...''
             [py_str pwn, py_str pid, py_str pname],
           Call ProjectExportCreate, Call ProjectExportRefresh,
           Sleep (delay_seconds self), Call ProjectExportRefresh,
           Sleep (delay_seconds self), Call ProjectExportRefresh]\<rparr>)"
proof -
  let ?w = "w\<lparr>trace := trace w @
          [Log Info ''Project export for '%s' (%d, '%s')...''
             [py_str pwn, py_str pid, py_str pname],
           Call ProjectExportCreate, Call ProjectExportRefresh]\<rparr>"
  have sl': "sleep_error (clock_max ?w) (sleep_max ?w) (delay_seconds self) = None"
    using sl by simp
  note loop = export_wait_scenario [OF sl' s1 s2]
  show ?thesis
    using assms(2-6)
    by (simp add: export_project_def getattr_def api_result_def catch_gitlab_def
        loop loop [unfolded One_nat_def] comp_defs)
qed

lemma import_project_wait_done_scenario:
  assumes sl: "sleep_error (clock_max w) (sleep_max w) (delay_seconds self) = None"
    and s0: "project_import_status (gl self) import_id 0 = Ok (''started'', pa)"
    and s1: "project_import_status (gl self) import_id 1 = Ok (''started'', pb)"
    and s2: "project_import_status (gl self) import_id 2 = Ok (''finished'', pc)"
  shows "import_project_wait_done self import_id w =
     Some (Inr (), w\<lparr>trace := trace w @
       [Call (ProjectImportGet import_id),
        Sleep (delay_seconds self), Call ProjectImportRefresh,
        Sleep (delay_seconds self), Call ProjectImportRefresh,
        Log Info (''Import finished of '%s'' @ [CHR 0x27]) [pc]]\<rparr>)"
proof -
  let ?w = "w\<lparr>trace := trace w @ [Call (ProjectImportGet import_id)]\<rparr>"
  have sl': "sleep_error (clock_max ?w) (sleep_max ?w) (delay_seconds self) = None"
    using sl by simp
  note loop = import_wait_scenario [OF sl' s1 s2, of pa]
  show ?thesis
    using s0
    by (simp add: import_project_wait_done_def api_result_def catch_gitlab_def
        loop loop [unfolded One_nat_def] comp_defs)
qed

lemma write_metadata_file_trace:
  "\<exists>r w'. write_metadata_file ob p w = Some (r, w') \<and> trace w' = trace w"
  by (auto simp: write_metadata_file_def write_file_def open_file_w_def put_file_def comp_defs
      split: sum.splits)

lemma download_export_actions:
  assumes "open_write w a = Inr fout"
  shows "\<exists>w'. download_export self project ppath a w = Some (Inr (), w')
     \<and> actions (trace w') = actions (trace w) @ [Call ProjectExportDownload]"
proof (cases "project_export_download (gl self) project")
  case (Downloaded bytes)
  with assms show ?thesis
    by (simp add: download_export_def catch_all_def open_file_w_def put_file_def comp_defs)
next
  case (DownloadFailed bytes e)
  with assms show ?thesis
    by (simp add: download_export_def catch_all_def open_file_w_def put_file_def comp_defs)
qed

lemma export_project_download_actions:
  assumes p: "map_of project ''path'' = Some ppath"
    and o: "open_write w
        (joinpath (os w) output_path (parse_path (os w) (project_archive_name ppath))) = Inr fout"
  shows "\<exists>r w'. export_project_download self project output_path w = Some (r, w')
     \<and> actions (trace w') = actions (trace w) @ [Call ProjectExportDownload]"
proof -
  let ?a = "joinpath (os w) output_path (parse_path (os w) (project_archive_name ppath))"
  let ?w0 = "w\<lparr>trace := trace w @
       [Log Info ''Downloading export for '%s': %s''
          [py_str ppath, str_path (os w) (resolve w ?a)]]\<rparr>"
  have "open_write ?w0 ?a = Inr fout" using o by simp
  from download_export_actions [OF this, of self project ppath]
  obtain w1 where
    dl: "download_export self project ppath ?a ?w0 = Some (Inr (), w1)"
    and ac: "actions (trace w1) = actions (trace ?w0) @ [Call ProjectExportDownload]"
    by (elim exE conjE)
  have ac': "actions (trace w1) = actions (trace w) @ [Call ProjectExportDownload]"
    using ac by simp
  show ?thesis
  proof (cases "get_filepath_project_metadata (os w) ?a")
    case (Inl e)
    have "export_project_download self project output_path w = Some (Inl e, w1)"
      using p dl Inl by (simp add: export_project_download_def getattr_def comp_defs)
    with ac' show ?thesis by (intro exI [of _ "Inl e"] exI [of _ w1]) simp
  next
    case (Inr meta)
    have eq: "export_project_download self project output_path w =
        write_metadata_file project meta w1"
      using p dl Inr by (simp add: export_project_download_def getattr_def comp_defs)
    from write_metadata_file_trace [of project meta w1] obtain r w' where
      "write_metadata_file project meta w1 = Some (r, w')" and "trace w' = trace w1"
      by (elim exE conjE)
    with eq ac' show ?thesis by (intro exI [of _ r] exI [of _ w']) simp
  qed
qed
subsection \<open>Files and metadata\<close>

lemma map_of_fs_put: "map_of (fs_put files p n) q = (if q = p then Some n else map_of files q)"
proof (cases "map_of files p = None")
  case True
  then show ?thesis
    by (auto simp: fs_put_def map_add_def split: option.splits)
next
  case False
  have "map_of (map (\<lambda>e. if fst e = p then (p, n) else e) files) q =
      (if q = p then (case map_of files p of None \<Rightarrow> None | Some _ \<Rightarrow> Some n) else map_of files q)"
    by (induction files) auto
  with False show ?thesis
    by (auto simp: fs_put_def)
qed

lemma fs_lookup_fs_put:
  "p \<noteq> [] \<Longrightarrow> fs_lookup (fs_put files p n) q = (if q = p then Some n else fs_lookup files q)"
  by (auto simp: fs_lookup_def map_of_fs_put)

lemma map_of_collect:
  "map_of (concat (map (\<lambda>k. case m k of None \<Rightarrow> [] | Some v \<Rightarrow> [(k, v)]) ks)) x =
     (if x \<in> set ks then m x else None)"
  by (induction ks) (auto simp: map_add_def split: option.splits)

lemma map_of_collect_metadata:
  "k \<in> set metadata_keys \<Longrightarrow> map_of (collect_metadata ob) k = map_of ob k"
  by (simp add: collect_metadata_def map_of_collect)

lemma no_sep_archive: "no_sep s \<Longrightarrow> plain_name (project_archive_name (PyStr s))"
  by (simp add: project_archive_name_def plain_name_def no_sep_def backslash_def)

lemma no_sep_sidecar: "no_sep s \<Longrightarrow> plain_name (project_archive_name (PyStr s) @ ''.json'')"
  by (simp add: project_archive_name_def plain_name_def no_sep_def backslash_def)

lemma sidecar_path:
  assumes "plain_name n" and "plain_name (n @ ''.json'')"
  shows "get_filepath_project_metadata fl (p @ [n]) = Inr (p @ [n @ ''.json''])"
proof -
  have "\<not> is_absolute fl [n]"
    using plain_not_sep [OF assms(1), of fl] by (simp add: is_absolute_def)
  then have nm: "path_name fl (p @ [n]) = n"
    by (cases p) (auto simp: path_name_def is_absolute_def)
  have "\<not> list_ex (is_sep fl) (n @ ''.json'')"
    using no_sep_not_is_sep [of "n @ ''.json''" _ fl] assms(2)
    by (auto simp: plain_name_def list_ex_iff)
  with nm assms show ?thesis
    by (simp add: get_filepath_project_metadata_def with_name_def plain_name_def)
qed

lemma descend_same_dirs:
  assumes "\<And>x. (fs_lookup f1 x = Some Dir) = (fs_lookup f2 x = Some Dir)"
  shows "(descend nmax f1 orig d cs = Inr q) = (descend nmax f2 orig d cs = Inr q)"
proof (induction cs arbitrary: d)
  case Nil
  show ?case by simp
next
  case (Cons c cs)
  show ?case
  proof (cases "fs_lookup f1 d = Some Dir")
    case True
    with assms [of d] have "fs_lookup f2 d = Some Dir" by simp
    with True Cons.IH show ?thesis by simp
  next
    case False
    with assms [of d] have 2: "fs_lookup f2 d \<noteq> Some Dir" by simp
    from False have "descend nmax f1 orig d (c # cs) \<noteq> Inr q"
      by (auto split: option.splits node.splits)
    moreover from 2 have "descend nmax f2 orig d (c # cs) \<noteq> Inr q"
      by (auto split: option.splits node.splits)
    ultimately show ?thesis by simp
  qed
qed

lemma locate_same_dirs:
  assumes "os w1 = os w2" and "cwd w1 = cwd w2" and "name_max w1 = name_max w2"
    and "\<And>x. (fs_lookup (fs w1) x = Some Dir) = (fs_lookup (fs w2) x = Some Dir)"
  shows "(locate w1 p = Inr q) = (locate w2 p = Inr q)"
  using assms(1-3) descend_same_dirs [of "fs w1" "fs w2", OF assms(4)]
  by (simp add: locate_def)

lemma open_write_place:
  assumes "open_write w a = Inr q"
  shows "locate w a = Inr q" and "fs_lookup (fs w) q \<noteq> Some Dir" and "q \<noteq> []"
proof -
  from assms show 1: "locate w a = Inr q" and 2: "fs_lookup (fs w) q \<noteq> Some Dir"
    by (auto simp: open_write_def split: sum.splits if_splits)
  from 2 show "q \<noteq> []" by (auto simp: fs_lookup_def)
qed

lemma download_export_result:
  "\<exists>w1. download_export self project ppath a w0 = Some (Inr (), w1)
     \<and> os w1 = os w0 \<and> cwd w1 = cwd w0 \<and> name_max w1 = name_max w0
     \<and> ((\<forall>x. fs_lookup (fs w1) x = fs_lookup (fs w0) x)
         \<or> (\<exists>q bytes. open_write w0 a = Inr q
               \<and> (\<forall>x. fs_lookup (fs w1) x =
                         (if x = q then Some (Blob bytes) else fs_lookup (fs w0) x))))"
proof (cases "open_write w0 a")
  case (Inl e)
  then show ?thesis
    by (simp add: download_export_def catch_all_def open_file_w_def comp_defs)
next
  case (Inr q)
  note ne = open_write_place(3) [OF Inr]
  show ?thesis
  proof (cases "project_export_download (gl self) project")
    case (Downloaded bytes)
    with Inr ne show ?thesis
      by (simp add: download_export_def catch_all_def open_file_w_def put_file_def comp_defs
          fs_lookup_fs_put)
  next
    case (DownloadFailed bytes e)
    with Inr ne show ?thesis
      by (simp add: download_export_def catch_all_def open_file_w_def put_file_def comp_defs
          fs_lookup_fs_put)
  qed
qed

lemma write_metadata_file_ok:
  assumes "map_of ob ''name'' = Some nm" and "map_of ob ''path'' = Some pth"
    and "locate w p = Inr q" and "fs_lookup (fs w) q \<noteq> Some Dir"
  shows "\<exists>w'. write_metadata_file ob p w = Some (Inr (), w')
     \<and> fs_lookup (fs w') q = Some (Json (collect_metadata ob))
     \<and> open_read w' p = Inr (Json (collect_metadata ob))"
proof -
  have 1: "map_of (collect_metadata ob) ''name'' = Some nm"
    using assms(1) by (simp add: map_of_collect_metadata metadata_keys_def)
  have 2: "map_of (collect_metadata ob) ''path'' = Some pth"
    using assms(2) by (simp add: map_of_collect_metadata metadata_keys_def)
  have 3: "open_write w p = Inr q"
    using assms(3,4) by (simp add: open_write_def)
  have ne: "q \<noteq> []" by (rule open_write_place(3) [OF 3])
  let ?w' = "w\<lparr>fs := fs_put (fs_put (fs w) q (Blob [])) q (Json (collect_metadata ob))\<rparr>"
  have run: "write_metadata_file ob p w = Some (Inr (), ?w')"
    by (simp add: write_metadata_file_def 1 2 3 write_file_def open_file_w_def put_file_def
        comp_defs)
  have lk: "\<And>x. fs_lookup (fs ?w') x =
      (if x = q then Some (Json (collect_metadata ob)) else fs_lookup (fs w) x)"
    using ne by (simp add: fs_lookup_fs_put)
  have "\<And>x. (fs_lookup (fs ?w') x = Some Dir) = (fs_lookup (fs w) x = Some Dir)"
    using assms(4) ne by (auto simp: fs_lookup_fs_put)
  then have "(locate ?w' p = Inr q) = (locate w p = Inr q)"
    by (intro locate_same_dirs) simp_all
  with assms(3) have loc: "locate ?w' p = Inr q" by simp
  have rd: "open_read ?w' p = Inr (Json (collect_metadata ob))"
    using ne by (simp add: open_read_def stat_def loc fs_lookup_fs_put)
  from run lk rd show ?thesis
    by (intro exI [of _ ?w']) simp
qed

lemma export_project_download_steps:
  assumes "map_of project ''path'' = Some ppath"
    and "joinpath (os w) output_path (parse_path (os w) (project_archive_name ppath)) = a"
    and "download_export self project ppath a
           (w\<lparr>trace := trace w @
              [Log Info ''Downloading export for '%s': %s''
                 [py_str ppath, str_path (os w) (resolve w a)]]\<rparr>) =
         Some (Inr (), w1)"
    and "get_filepath_project_metadata (os w) a = Inr meta"
  shows "export_project_download self project output_path w = write_metadata_file project meta w1"
  using assms
  by (simp add: export_project_download_def getattr_def comp_defs)
subsection \<open>The glob does not depend on the events\<close>

lemma stat_trace [simp]: "stat (w\<lparr>trace := t\<rparr>) p = stat w p"
  by (cases "locate w p") (simp_all add: stat_def)

lemma lexists_trace [simp]: "lexists (w\<lparr>trace := t\<rparr>) p = lexists w p"
  by (simp add: lexists_def)

lemma listdir_trace [simp]: "listdir (w\<lparr>trace := t\<rparr>) d dironly = listdir w d dironly"
  by (cases "locate w d") (simp_all add: listdir_def)

lemma glob1_trace [simp]: "glob1 (w\<lparr>trace := t\<rparr>) d pattern dironly = glob1 w d pattern dironly"
  by (simp add: glob1_def)

lemma glob0_trace [simp]: "glob0 (w\<lparr>trace := t\<rparr>) d basename = glob0 w d basename"
  by (simp add: glob0_def)

lemma iglob_parts_trace [simp]:
  "iglob_parts (w\<lparr>trace := t\<rparr>) r parts dironly = iglob_parts w r parts dironly"
  by (induction parts arbitrary: dironly) simp_all

lemma iglob_trace [simp]: "iglob (w\<lparr>trace := t\<rparr>) p = iglob w p"
  by (simp add: iglob_def split: list.splits)

text \<open>When no name of the resolved path of the folder has a wildcard character, the glob
  lists the folder itself: its results are the names of the folder that are not hidden and
  match the pattern.\<close>

lemma iglob_plain_folder:
  assumes "resolve w (joinpath (os w) folder (parse_path (os w) FILENAME_PATTERN_GROUP)) =
      r # names @ [FILENAME_PATTERN_GROUP]"
    and "\<not> list_ex has_magic names"
  shows "iglob w (resolve w (joinpath (os w) folder (parse_path (os w) FILENAME_PATTERN_GROUP))) =
     map (\<lambda>n. (r # names) @ [n])
       (filter (\<lambda>x. fnmatch (os w) x FILENAME_PATTERN_GROUP)
          (filter (\<lambda>x. \<not> is_hidden x) (listdir w (r # names) False)))"
proof -
  have m: "has_magic FILENAME_PATTERN_GROUP"
    by (simp add: FILENAME_PATTERN_GROUP_def has_magic_def)
  have h: "\<not> is_hidden FILENAME_PATTERN_GROUP"
    by (simp add: FILENAME_PATTERN_GROUP_def is_hidden_def)
  have nm: "\<not> list_ex has_magic (rev names)"
    using assms(2) by (simp add: list_ex_iff)
  show ?thesis
    unfolding assms(1)
    using nm m h by (simp add: iglob_def glob1_def)
qed
subsection \<open>The claims\<close>

text \<open>
  C1. The import of the scenario's tree without a Gitlab root: \<^verbatim>\<open>_import_groups\<close> makes one
  group-import request, with the root group's archive (found by the glob, so under its
  absolute path) and the path and name of the root metadata file, and its parent id is
  \<^verbatim>\<open>str(None)\<close>, the string \<^verbatim>\<open>None\<close>, where the claim has no parent id at all.
\<close>

theorem import_groups_without_root_sends_None_string:
  "map_option (\<lambda>r. (fst r, trace (snd r))) (import_groups import_self PyNone import_world) =
     Some (Inr True,
       [Log Info ''Importing group '%s' with path '%s' ...'' [''Team A'', ''teamA''],
        Log Info ''Loading from file '%s' ...'' [''/work/exp/group_teamA.tar.gz''],
        Call (GroupImport [''/'', ''work'', ''exp'', ''group_teamA.tar.gz''] (PyStr ''teamA'')
           (PyStr ''Team A'') (PyStr ''None'')),
        Log Info ''Group import of '%s' done.'' [''Team A'']])"
  by code_simp

text \<open>
  C2. The export of the scenario's root group when the remote refuses to create the export
  job: \<^verbatim>\<open>_export_group\<close> logs the error, sleeps, creates the directory and the empty
  archive file, and then ends with the \<^verbatim>\<open>AttributeError\<close> of \<^verbatim>\<open>exporter.download\<close> on
  \<^verbatim>\<open>None\<close>. Nothing in \<^verbatim>\<open>exporting\<close> or \<^verbatim>\<open>main\<close> handles it.
\<close>

theorem export_group_create_error_is_unhandled:
  "map_option (\<lambda>r. (map_sum id (\<lambda>_. ()) (fst r), trace (snd r), fs (snd r)))
     (export_group export_self ''teamA'' export_world) =
   Some (Inl (AttributeError ''download''),
     [Call (GroupsGet ''teamA''),
      Log Info ''Creating group export for '%s' (path '%s') ...'' [''Team A'', ''teamA''],
      Call GroupExportCreate,
      Log Error ''Problem creating export: %s'' [''403 Forbidden''],
      Sleep (Fin 15),
      Log Info ''Downloading group export to '%s' ...''
        [''/work/out/teamA/group_teamA.tar.gz'']],
     [([''work''], Dir), ([''work'', ''out''], Dir), ([''work'', ''out'', ''teamA''], Dir),
      ([''work'', ''out'', ''teamA'', ''group_teamA.tar.gz''], Blob [])])"
  by code_simp

text \<open>
  C3. A polling loop that returns normally has left with the status \<^verbatim>\<open>finished\<close> (the
  other ways out are the \<^verbatim>\<open>GitlabError\<close> of a failed fetch, which skips the download
  and the completion, and the exception of a sleep that \<^verbatim>\<open>time.sleep\<close> refuses). For a
  delay that \<^verbatim>\<open>time.sleep\<close> accepts and a job whose fetches report \<^verbatim>\<open>started\<close>,
  \<^verbatim>\<open>started\<close>, \<^verbatim>\<open>finished\<close>, \<^verbatim>\<open>export_project\<close> makes three fetches with one
  sleep of the delay between consecutive ones and then runs its download step once, on the
  world with exactly these events; when the archive file can be opened, the run returns and
  its events other than log lines are the creation, the three fetches with the two sleeps
  between them and one download, whatever the download and the metadata file do.
  \<^verbatim>\<open>__import_project_wait_done\<close> makes three fetches with the two sleeps and logs the
  completion once.
\<close>

theorem polling_ends_at_finished:
  "(export_wait self project st n w = Some (Inr st', w') \<longrightarrow> st' = ''finished'')
   \<and> (import_wait self import_id importer m v = Some (Inr importer', v') \<longrightarrow>
        fst importer' = ''finished'')
   \<and> (sleep_error (clock_max w) (sleep_max w) (delay_seconds self) = None
        \<and> map_of project ''path_with_namespace'' = Some pwn
        \<and> map_of project ''id'' = Some pid
        \<and> map_of project ''name'' = Some pname
        \<and> project_export_create (gl self) project = Ok ()
        \<and> project_export_status (gl self) project 0 = Ok ''started''
        \<and> project_export_status (gl self) project 1 = Ok ''started''
        \<and> project_export_status (gl self) project 2 = Ok ''finished'' \<longrightarrow>
        export_project self project output_path_arg w =
          export_project_download self project
            (case output_path_arg of None \<Rightarrow> export_folder self | Some p \<Rightarrow> p)
            (w\<lparr>trace := trace w @
               [Log Info ''Project export for '%s' (%d, '%s')...''
                  [py_str pwn, py_str pid, py_str pname],
                Call ProjectExportCreate, Call ProjectExportRefresh,
                Sleep (delay_seconds self), Call ProjectExportRefresh,
                Sleep (delay_seconds self), Call ProjectExportRefresh]\<rparr>)
        \<and> (map_of project ''path'' = Some ppath
             \<and> open_write w
                 (joinpath (os w)
                    (case output_path_arg of None \<Rightarrow> export_folder self | Some p \<Rightarrow> p)
                    (parse_path (os w) (project_archive_name ppath))) = Inr fout \<longrightarrow>
             (\<exists>r w'. export_project self project output_path_arg w = Some (r, w')
                \<and> actions (trace w') = actions (trace w) @
                     [Call ProjectExportCreate, Call ProjectExportRefresh,
                      Sleep (delay_seconds self), Call ProjectExportRefresh,
                      Sleep (delay_seconds self), Call ProjectExportRefresh,
                      Call ProjectExportDownload])))
   \<and> (sleep_error (clock_max v) (sleep_max v) (delay_seconds self) = None
        \<and> project_import_status (gl self) import_id 0 = Ok (''started'', pa)
        \<and> project_import_status (gl self) import_id 1 = Ok (''started'', pb)
        \<and> project_import_status (gl self) import_id 2 = Ok (''finished'', pc) \<longrightarrow>
        import_project_wait_done self import_id v =
          Some (Inr (), v\<lparr>trace := trace v @
            [Call (ProjectImportGet import_id),
             Sleep (delay_seconds self), Call ProjectImportRefresh,
             Sleep (delay_seconds self), Call ProjectImportRefresh,
             Log Info (''Import finished of '%s'' @ [CHR 0x27]) [pc]]\<rparr>))"
proof (intro conjI impI)
  assume "export_wait self project st n w = Some (Inr st', w')"
  from export_wait_finished [OF this] show "st' = ''finished''" by simp
next
  assume "import_wait self import_id importer m v = Some (Inr importer', v')"
  from import_wait_finished [OF this] show "fst importer' = ''finished''" by simp
next
  assume "sleep_error (clock_max w) (sleep_max w) (delay_seconds self) = None
        \<and> map_of project ''path_with_namespace'' = Some pwn
        \<and> map_of project ''id'' = Some pid
        \<and> map_of project ''name'' = Some pname
        \<and> project_export_create (gl self) project = Ok ()
        \<and> project_export_status (gl self) project 0 = Ok ''started''
        \<and> project_export_status (gl self) project 1 = Ok ''started''
        \<and> project_export_status (gl self) project 2 = Ok ''finished''"
  then show "export_project self project output_path_arg w =
          export_project_download self project
            (case output_path_arg of None \<Rightarrow> export_folder self | Some p \<Rightarrow> p)
            (w\<lparr>trace := trace w @
               [Log Info ''Project export for '%s' (%d, '%s')...''
                  [py_str pwn, py_str pid, py_str pname],
                Call ProjectExportCreate, Call ProjectExportRefresh,
                Sleep (delay_seconds self), Call ProjectExportRefresh,
                Sleep (delay_seconds self), Call ProjectExportRefresh]\<rparr>)"
    by (intro export_project_scenario) simp_all
next
  let ?out = "case output_path_arg of None \<Rightarrow> export_folder self | Some p \<Rightarrow> p"
  let ?w1 = "w\<lparr>trace := trace w @
               [Log Info ''Project export for '%s' (%d, '%s')...''
                  [py_str pwn, py_str pid, py_str pname],
                Call ProjectExportCreate, Call ProjectExportRefresh,
                Sleep (delay_seconds self), Call ProjectExportRefresh,
                Sleep (delay_seconds self), Call ProjectExportRefresh]\<rparr>"
  assume h: "sleep_error (clock_max w) (sleep_max w) (delay_seconds self) = None
        \<and> map_of project ''path_with_namespace'' = Some pwn
        \<and> map_of project ''id'' = Some pid
        \<and> map_of project ''name'' = Some pname
        \<and> project_export_create (gl self) project = Ok ()
        \<and> project_export_status (gl self) project 0 = Ok ''started''
        \<and> project_export_status (gl self) project 1 = Ok ''started''
        \<and> project_export_status (gl self) project 2 = Ok ''finished''"
    and a: "map_of project ''path'' = Some ppath
        \<and> open_write w (joinpath (os w) ?out
              (parse_path (os w) (project_archive_name ppath))) = Inr fout"
  from h have run: "export_project self project output_path_arg w =
      export_project_download self project ?out ?w1"
    by (intro export_project_scenario) simp_all
  from a have o: "open_write ?w1 (joinpath (os ?w1) ?out
              (parse_path (os ?w1) (project_archive_name ppath))) = Inr fout"
    by simp
  from export_project_download_actions [OF a [THEN conjunct1] o, of self]
  obtain r w' where
    "export_project_download self project ?out ?w1 = Some (r, w')"
    and "actions (trace w') = actions (trace ?w1) @ [Call ProjectExportDownload]"
    by (elim exE conjE)
  then have "export_project self project output_path_arg w = Some (r, w')
      \<and> actions (trace w') = actions (trace w) @
           [Call ProjectExportCreate, Call ProjectExportRefresh,
            Sleep (delay_seconds self), Call ProjectExportRefresh,
            Sleep (delay_seconds self), Call ProjectExportRefresh,
            Call ProjectExportDownload]"
    by (simp add: run)
  then show "\<exists>r w'. export_project self project output_path_arg w = Some (r, w')
      \<and> actions (trace w') = actions (trace w) @
           [Call ProjectExportCreate, Call ProjectExportRefresh,
            Sleep (delay_seconds self), Call ProjectExportRefresh,
            Sleep (delay_seconds self), Call ProjectExportRefresh,
            Call ProjectExportDownload]"
    by (intro exI [of _ r] exI [of _ w'])
next
  assume "sleep_error (clock_max v) (sleep_max v) (delay_seconds self) = None
        \<and> project_import_status (gl self) import_id 0 = Ok (''started'', pa)
        \<and> project_import_status (gl self) import_id 1 = Ok (''started'', pb)
        \<and> project_import_status (gl self) import_id 2 = Ok (''finished'', pc)"
  then show "import_project_wait_done self import_id v =
          Some (Inr (), v\<lparr>trace := trace v @
            [Call (ProjectImportGet import_id),
             Sleep (delay_seconds self), Call ProjectImportRefresh,
             Sleep (delay_seconds self), Call ProjectImportRefresh,
             Log Info (''Import finished of '%s'' @ [CHR 0x27]) [pc]]\<rparr>)"
    by (intro import_project_wait_done_scenario [of v self import_id pa pb pc]) simp_all
qed

text \<open>The scenario's export of \<^verbatim>\<open>svc1\<close> and the wait for the import job 7: three fetches,
  two sleeps, one download (one completion).\<close>

theorem polling_ends_at_finished_witness:
  "sleep_error (clock_max export_world) (sleep_max export_world) (delay_seconds export_self) = None
   \<and> open_write export_world [''out'', ''project_svc1.tar.gz''] =
       Inr [''work'', ''out'', ''project_svc1.tar.gz'']
   \<and> export_wait export_self svc1_project ''started'' 1 export_world =
     Some (Inr ''finished'', export_world\<lparr>trace :=
       [Sleep (Fin 15), Call ProjectExportRefresh, Sleep (Fin 15), Call ProjectExportRefresh]\<rparr>)
   \<and> import_wait export_self (PyInt 7) (''started'', ''destgrp/teamA/sub1/svc2'') 1 export_world =
     Some (Inr (''finished'', ''destgrp/teamA/sub1/svc2''), export_world\<lparr>trace :=
       [Sleep (Fin 15), Call ProjectImportRefresh, Sleep (Fin 15), Call ProjectImportRefresh]\<rparr>)
   \<and> export_project export_self svc1_project None export_world =
     Some (Inr (),
       export_world\<lparr>
        fs := [([''work''], Dir), ([''work'', ''out''], Dir),
              ([''work'', ''out'', ''project_svc1.tar.gz''], Blob ''svc1-archive''),
              ([''work'', ''out'', ''project_svc1.tar.gz.json''],
                 Json [(''id'', PyInt 11), (''name'', PyStr ''Service 1''),
                       (''path'', PyStr ''svc1'')])],
        trace :=
          [Log Info ''Project export for '%s' (%d, '%s')...''
             [''teamA/svc1'', ''11'', ''Service 1''],
           Call ProjectExportCreate, Call ProjectExportRefresh,
           Sleep (Fin 15), Call ProjectExportRefresh,
           Sleep (Fin 15), Call ProjectExportRefresh,
           Log Info ''Downloading export for '%s': %s''
             [''svc1'', ''/work/out/project_svc1.tar.gz''],
           Call ProjectExportDownload,
           Log Info (''Download finished for '%s'' @ [CHR 0x27]) [''svc1'']]\<rparr>)
   \<and> (\<exists>r w'. export_project export_self svc1_project None export_world = Some (r, w')
         \<and> actions (trace w') =
              [Call ProjectExportCreate, Call ProjectExportRefresh,
               Sleep (Fin 15), Call ProjectExportRefresh,
               Sleep (Fin 15), Call ProjectExportRefresh,
               Call ProjectExportDownload])
   \<and> import_project_wait_done export_self (PyInt 7) export_world =
     Some (Inr (), export_world\<lparr>trace :=
       [Call (ProjectImportGet (PyInt 7)),
        Sleep (Fin 15), Call ProjectImportRefresh,
        Sleep (Fin 15), Call ProjectImportRefresh,
        Log Info (''Import finished of '%s'' @ [CHR 0x27]) [''destgrp/teamA/sub1/svc2'']]\<rparr>)"
proof -
  let ?p = "''destgrp/teamA/sub1/svc2''"
  note inst = polling_ends_at_finished
    [where self = export_self and project = svc1_project and st = "''started''" and n = 1
       and w = export_world and st' = "''finished''"
       and import_id = "PyInt 7" and importer = "(''started'', ?p)" and m = 1
       and v = export_world and importer' = "(''finished'', ?p)"
       and pwn = "PyStr ''teamA/svc1''" and pid = "PyInt 11" and pname = "PyStr ''Service 1''"
       and ppath = "PyStr ''svc1''" and fout = "[''work'', ''out'', ''project_svc1.tar.gz'']"
       and output_path_arg = None and pa = ?p and pb = ?p and pc = ?p]
  have sl: "sleep_error (clock_max export_world) (sleep_max export_world)
      (delay_seconds export_self) = None"
    by (simp add: export_world_def export_self_def sleep_error_def)
  have ow: "open_write export_world [''out'', ''project_svc1.tar.gz''] =
       Inr [''work'', ''out'', ''project_svc1.tar.gz'']"
    by code_simp
  have hyps: "sleep_error (clock_max export_world) (sleep_max export_world)
          (delay_seconds export_self) = None
        \<and> map_of svc1_project ''path_with_namespace'' = Some (PyStr ''teamA/svc1'')
        \<and> map_of svc1_project ''id'' = Some (PyInt 11)
        \<and> map_of svc1_project ''name'' = Some (PyStr ''Service 1'')
        \<and> project_export_create (gl export_self) svc1_project = Ok ()
        \<and> project_export_status (gl export_self) svc1_project 0 = Ok ''started''
        \<and> project_export_status (gl export_self) svc1_project 1 = Ok ''started''
        \<and> project_export_status (gl export_self) svc1_project 2 = Ok ''finished''"
    using sl by (simp add: svc1_project_def export_self_def scenario_remote_def)
  have ihyps: "sleep_error (clock_max export_world) (sleep_max export_world)
          (delay_seconds export_self) = None
        \<and> project_import_status (gl export_self) (PyInt 7) 0 = Ok (''started'', ?p)
        \<and> project_import_status (gl export_self) (PyInt 7) 1 = Ok (''started'', ?p)
        \<and> project_import_status (gl export_self) (PyInt 7) 2 = Ok (''finished'', ?p)"
    using sl by (simp add: export_self_def scenario_remote_def)
  have ahyps: "map_of svc1_project ''path'' = Some (PyStr ''svc1'')
        \<and> open_write export_world
             (joinpath (os export_world)
                (case None of None \<Rightarrow> export_folder export_self | Some p \<Rightarrow> p)
                (parse_path (os export_world) (project_archive_name (PyStr ''svc1'')))) =
            Inr [''work'', ''out'', ''project_svc1.tar.gz'']"
  proof
    show "map_of svc1_project ''path'' = Some (PyStr ''svc1'')"
      by (simp add: svc1_project_def)
    show "open_write export_world
             (joinpath (os export_world)
                (case None of None \<Rightarrow> export_folder export_self | Some p \<Rightarrow> p)
                (parse_path (os export_world) (project_archive_name (PyStr ''svc1'')))) =
            Inr [''work'', ''out'', ''project_svc1.tar.gz'']"
      by code_simp
  qed
  have ew: "export_wait export_self svc1_project ''started'' 1 export_world =
     Some (Inr ''finished'', export_world\<lparr>trace :=
       [Sleep (Fin 15), Call ProjectExportRefresh, Sleep (Fin 15), Call ProjectExportRefresh]\<rparr>)"
    by code_simp
  have iw: "import_wait export_self (PyInt 7) (''started'', ?p) 1 export_world =
     Some (Inr (''finished'', ?p), export_world\<lparr>trace :=
       [Sleep (Fin 15), Call ProjectImportRefresh, Sleep (Fin 15), Call ProjectImportRefresh]\<rparr>)"
    by code_simp
  let ?final = "export_world\<lparr>
        fs := [([''work''], Dir), ([''work'', ''out''], Dir),
              ([''work'', ''out'', ''project_svc1.tar.gz''], Blob ''svc1-archive''),
              ([''work'', ''out'', ''project_svc1.tar.gz.json''],
                 Json [(''id'', PyInt 11), (''name'', PyStr ''Service 1''),
                       (''path'', PyStr ''svc1'')])],
        trace :=
          [Log Info ''Project export for '%s' (%d, '%s')...''
             [''teamA/svc1'', ''11'', ''Service 1''],
           Call ProjectExportCreate, Call ProjectExportRefresh,
           Sleep (Fin 15), Call ProjectExportRefresh,
           Sleep (Fin 15), Call ProjectExportRefresh,
           Log Info ''Downloading export for '%s': %s''
             [''svc1'', ''/work/out/project_svc1.tar.gz''],
           Call ProjectExportDownload,
           Log Info (''Download finished for '%s'' @ [CHR 0x27]) [''svc1'']]\<rparr>"
  have dl: "export_project_download export_self svc1_project [''out'']
       (export_world\<lparr>trace := trace export_world @
          [Log Info ''Project export for '%s' (%d, '%s')...''
             [py_str (PyStr ''teamA/svc1''), py_str (PyInt 11), py_str (PyStr ''Service 1'')],
           Call ProjectExportCreate, Call ProjectExportRefresh,
           Sleep (delay_seconds export_self), Call ProjectExportRefresh,
           Sleep (delay_seconds export_self), Call ProjectExportRefresh]\<rparr>) =
     Some (Inr (), ?final)"
    by code_simp
  have folder: "(case None of None \<Rightarrow> export_folder export_self | Some p \<Rightarrow> p) = [''out'']"
    by (simp add: export_self_def)
  note third = inst [THEN conjunct2, THEN conjunct2, THEN conjunct1, rule_format, OF hyps]
  have ex: "export_project export_self svc1_project None export_world = Some (Inr (), ?final)"
    using third [THEN conjunct1] dl by (simp only: folder)
  from third [THEN conjunct2, rule_format, OF ahyps]
  have ac: "\<exists>r w'. export_project export_self svc1_project None export_world = Some (r, w')
         \<and> actions (trace w') =
              [Call ProjectExportCreate, Call ProjectExportRefresh,
               Sleep (Fin 15), Call ProjectExportRefresh,
               Sleep (Fin 15), Call ProjectExportRefresh,
               Call ProjectExportDownload]"
    by (simp add: export_world_def export_self_def)
  from inst [THEN conjunct2, THEN conjunct2, THEN conjunct2, rule_format, OF ihyps]
  have im: "import_project_wait_done export_self (PyInt 7) export_world =
     Some (Inr (), export_world\<lparr>trace :=
       [Call (ProjectImportGet (PyInt 7)),
        Sleep (Fin 15), Call ProjectImportRefresh,
        Sleep (Fin 15), Call ProjectImportRefresh,
        Log Info (''Import finished of '%s'' @ [CHR 0x27]) [?p]]\<rparr>)"
    by (simp add: export_self_def export_world_def)
  from sl ow ew iw ex ac im show ?thesis by (intro conjI)
qed

text \<open>
  C4. For a root group path \<open>r\<close> and a directory of the walk at the relative path
  \<open>comps\<close> under the export folder (all plain names), on either host, the namespace that
  \<^verbatim>\<open>_import_projects\<close> computes is \<open>dest/r/comps\<close> joined with \<^verbatim>\<open>/\<close> when the
  Gitlab root \<open>dest\<close> is given, and \<open>r/comps\<close> without one; for the export folder itself
  it is \<open>dest/r\<close> and \<open>r\<close>. It is the namespace every project archive of that
  directory is imported with.
\<close>

theorem namespace_of_directory:
  assumes r: "plain_name r" and cs: "list_all plain_name comps"
  shows "(dest \<noteq> [] \<longrightarrow>
           namespace_of fl (PyStr r) (PyStr dest) folder (folder @ comps) =
             Inr (dest @ ''/'' @ join ''/'' (r # comps)))
    \<and> namespace_of fl (PyStr r) PyNone folder (folder @ comps) = Inr (join ''/'' (r # comps))
    \<and> namespace_of fl (PyStr r) (PyStr []) folder (folder @ comps) = Inr (join ''/'' (r # comps))
    \<and> (dest \<noteq> [] \<longrightarrow>
           namespace_of fl (PyStr r) (PyStr dest) folder folder = Inr (dest @ ''/'' @ r))
    \<and> namespace_of fl (PyStr r) PyNone folder folder = Inr r
    \<and> import_projects_dir self gitlab_root (PyStr r) (export_folder self @ comps, ds, files) w =
         for_each
           (import_projects_file self (export_folder self @ comps)
              ((if truthy gitlab_root then py_str gitlab_root @ ''/'' else []) @
               join ''/'' (r # comps)))
           files w"
proof (intro conjI impI)
  assume "dest \<noteq> []"
  then show "namespace_of fl (PyStr r) (PyStr dest) folder (folder @ comps) =
      Inr (dest @ ''/'' @ join ''/'' (r # comps))"
    using namespace_of_plain [OF r cs, of fl "PyStr dest" folder] by simp
next
  show "namespace_of fl (PyStr r) PyNone folder (folder @ comps) = Inr (join ''/'' (r # comps))"
    using namespace_of_plain [OF r cs, of fl PyNone folder] by simp
next
  show "namespace_of fl (PyStr r) (PyStr []) folder (folder @ comps) =
      Inr (join ''/'' (r # comps))"
    using namespace_of_plain [OF r cs, of fl "PyStr []" folder] by simp
next
  assume "dest \<noteq> []"
  then show "namespace_of fl (PyStr r) (PyStr dest) folder folder = Inr (dest @ ''/'' @ r)"
    using namespace_of_plain [OF r, of "[]" fl "PyStr dest" folder] by simp
next
  show "namespace_of fl (PyStr r) PyNone folder folder = Inr r"
    using namespace_of_plain [OF r, of "[]" fl PyNone folder] by simp
next
  show "import_projects_dir self gitlab_root (PyStr r) (export_folder self @ comps, ds, files) w =
         for_each
           (import_projects_file self (export_folder self @ comps)
              ((if truthy gitlab_root then py_str gitlab_root @ ''/'' else []) @
               join ''/'' (r # comps)))
           files w"
    by (simp add: import_projects_dir_def namespace_of_plain [OF r cs] then_do_def lift_def
        del: join.simps)
qed

text \<open>On Windows, where \<^verbatim>\<open>str\<close> of the path has backslashes.\<close>

theorem namespace_of_directory_witness:
  "plain_name ''root'' \<and> list_all plain_name [''a'', ''b'']
   \<and> str_path Windows [''root'', ''a'', ''b''] =
       ''root'' @ [backslash] @ ''a'' @ [backslash] @ ''b''
   \<and> namespace_of Windows (PyStr ''root'') (PyStr ''dest'') [''exp''] [''exp'', ''a'', ''b''] =
       Inr ''dest/root/a/b''
   \<and> namespace_of Windows (PyStr ''root'') PyNone [''exp''] [''exp'', ''a'', ''b''] =
       Inr ''root/a/b''
   \<and> namespace_of Windows (PyStr ''root'') (PyStr ''dest'') [''exp''] [''exp''] =
       Inr ''dest/root''
   \<and> namespace_of Windows (PyStr ''root'') PyNone [''exp''] [''exp''] = Inr ''root''"
proof -
  have 1: "plain_name ''root''"
    by (simp add: plain_name_def no_sep_def backslash_def)
  have 2: "list_all plain_name [''a'', ''b'']"
    by (simp add: plain_name_def no_sep_def backslash_def)
  have 3: "str_path Windows [''root'', ''a'', ''b''] =
       ''root'' @ [backslash] @ ''a'' @ [backslash] @ ''b''"
    by (simp add: str_path_def is_absolute_def backslash_def)
  show ?thesis
    using 1 2 3
      namespace_of_directory [OF 1 2, of "''dest''" Windows "[''exp'']" import_self PyNone
        "[]" "[]" import_world]
    by simp
qed

text \<open>
  C5. When the project at \<^verbatim>\<open>namespace/slug\<close> exists already, \<^verbatim>\<open>_import_project\<close> looks
  it up, logs the warning and returns: the files are as before and the only API call is the
  lookup, so there is no upload and no import job.
\<close>

theorem import_project_skips_existing:
  assumes "get_filepath_project_metadata (os w) filepath = Inr meta"
    and "open_read w meta = Inr (Json d)"
    and "map_of d ''path'' = Some slug"
    and "map_of d ''name'' = Some name"
    and "projects_get (gl self) (namespace @ ''/'' @ py_str slug) = Some existing"
  shows "import_project' self filepath namespace w =
     Some (Inr (), w\<lparr>trace := trace w @
        [Call (ProjectsGet (namespace @ ''/'' @ py_str slug)),
         Log Warning ''Skipping already existing project: %s''
           [namespace @ ''/'' @ py_str slug]]\<rparr>)"
  using assms
  by (simp add: import_project'_def read_metadata_file_def read_file_def getitem_def
      get_project_def comp_defs)

theorem import_project_skips_existing_witness:
  "import_project' import_self [''exp'', ''project_svc1.tar.gz''] ''destgrp/teamA'' import_world =
     Some (Inr (), import_world\<lparr>trace := trace import_world @
        [Call (ProjectsGet ''destgrp/teamA/svc1''),
         Log Warning ''Skipping already existing project: %s'' [''destgrp/teamA/svc1'']]\<rparr>)"
proof -
  have 1: "get_filepath_project_metadata (os import_world) [''exp'', ''project_svc1.tar.gz''] =
      Inr [''exp'', ''project_svc1.tar.gz.json'']"
    by code_simp
  have 2: "open_read import_world [''exp'', ''project_svc1.tar.gz.json''] =
      Inr (Json [(''id'', PyInt 11), (''name'', PyStr ''Service 1''), (''path'', PyStr ''svc1'')])"
    by code_simp
  have 3: "map_of [(''id'', PyInt 11), (''name'', PyStr ''Service 1''), (''path'', PyStr ''svc1'')]
      ''path'' = Some (PyStr ''svc1'')"
    by simp
  have 4: "map_of [(''id'', PyInt 11), (''name'', PyStr ''Service 1''), (''path'', PyStr ''svc1'')]
      ''name'' = Some (PyStr ''Service 1'')"
    by simp
  have 5: "projects_get (gl import_self) (''destgrp/teamA'' @ ''/'' @ py_str (PyStr ''svc1'')) =
      Some svc1_project"
    by (simp add: import_self_def scenario_remote_def)
  show ?thesis
    using import_project_skips_existing [OF 1 2 3 4 5] by simp
qed

text \<open>
  C6 as the claim states it fails. The export of a project whose path has 236 characters
  reaches the download step and writes the archive, whose name has 251 characters; the name
  of the metadata file has 256, one more than the host allows, so \<^verbatim>\<open>_write_metadata_file\<close>
  ends with \<^verbatim>\<open>OSError\<close> and the archive is the only file. When a directory sits at the
  place of the metadata file, the archive is written and the method ends with
  \<^verbatim>\<open>IsADirectoryError\<close>; when the output directory is missing, neither file is written.
\<close>

theorem export_project_without_metadata_file:
  "length (project_archive_name (PyStr (replicate 236 (CHR ''a'')))) = 251
   \<and> map_option
        (\<lambda>r. (fst r, actions (trace (snd r)),
              filter (\<lambda>e. snd e \<noteq> Dir) (fs (snd r))))
        (export_project export_self long_project None export_world) =
      Some (Inl (OSError ''File name too long''
                   [''out'', project_archive_name (PyStr (replicate 236 (CHR ''a''))) @ ''.json'']),
        [Call ProjectExportCreate, Call ProjectExportRefresh,
         Sleep (Fin 15), Call ProjectExportRefresh,
         Sleep (Fin 15), Call ProjectExportRefresh,
         Call ProjectExportDownload],
        [([''work'', ''out'', project_archive_name (PyStr (replicate 236 (CHR ''a'')))],
          Blob ''svc1-archive'')])
   \<and> map_option
        (\<lambda>r. (fst r, actions (trace (snd r)), fs (snd r)))
        (export_project export_self svc1_project None
           (export_world\<lparr>fs := fs export_world @
              [([''work'', ''out'', ''project_svc1.tar.gz.json''], Dir)]\<rparr>)) =
      Some (Inl (IsADirectoryError [''out'', ''project_svc1.tar.gz.json'']),
        [Call ProjectExportCreate, Call ProjectExportRefresh,
         Sleep (Fin 15), Call ProjectExportRefresh,
         Sleep (Fin 15), Call ProjectExportRefresh,
         Call ProjectExportDownload],
        [([''work''], Dir), ([''work'', ''out''], Dir),
         ([''work'', ''out'', ''project_svc1.tar.gz.json''], Dir),
         ([''work'', ''out'', ''project_svc1.tar.gz''], Blob ''svc1-archive'')])
   \<and> map_option
        (\<lambda>r. (fst r, actions (trace (snd r)), fs (snd r)))
        (export_project (export_self\<lparr>export_folder := [''gone'']\<rparr>) svc1_project None
           export_world) =
      Some (Inl (FileNotFoundError [''gone'', ''project_svc1.tar.gz.json'']),
        [Call ProjectExportCreate, Call ProjectExportRefresh,
         Sleep (Fin 15), Call ProjectExportRefresh,
         Sleep (Fin 15), Call ProjectExportRefresh],
        [([''work''], Dir), ([''work'', ''out''], Dir)])"
proof -
  have 1: "length (project_archive_name (PyStr (replicate 236 (CHR ''a'')))) = 251"
    by (simp add: project_archive_name_def)
  have 2: "map_option
        (\<lambda>r. (fst r, actions (trace (snd r)),
              filter (\<lambda>e. snd e \<noteq> Dir) (fs (snd r))))
        (export_project export_self long_project None export_world) =
      Some (Inl (OSError ''File name too long''
                   [''out'', project_archive_name (PyStr (replicate 236 (CHR ''a''))) @ ''.json'']),
        [Call ProjectExportCreate, Call ProjectExportRefresh,
         Sleep (Fin 15), Call ProjectExportRefresh,
         Sleep (Fin 15), Call ProjectExportRefresh,
         Call ProjectExportDownload],
        [([''work'', ''out'', project_archive_name (PyStr (replicate 236 (CHR ''a'')))],
          Blob ''svc1-archive'')])"
    by code_simp
  have 3: "map_option
        (\<lambda>r. (fst r, actions (trace (snd r)), fs (snd r)))
        (export_project export_self svc1_project None
           (export_world\<lparr>fs := fs export_world @
              [([''work'', ''out'', ''project_svc1.tar.gz.json''], Dir)]\<rparr>)) =
      Some (Inl (IsADirectoryError [''out'', ''project_svc1.tar.gz.json'']),
        [Call ProjectExportCreate, Call ProjectExportRefresh,
         Sleep (Fin 15), Call ProjectExportRefresh,
         Sleep (Fin 15), Call ProjectExportRefresh,
         Call ProjectExportDownload],
        [([''work''], Dir), ([''work'', ''out''], Dir),
         ([''work'', ''out'', ''project_svc1.tar.gz.json''], Dir),
         ([''work'', ''out'', ''project_svc1.tar.gz''], Blob ''svc1-archive'')])"
    by code_simp
  have 4: "map_option
        (\<lambda>r. (fst r, actions (trace (snd r)), fs (snd r)))
        (export_project (export_self\<lparr>export_folder := [''gone'']\<rparr>) svc1_project None
           export_world) =
      Some (Inl (FileNotFoundError [''gone'', ''project_svc1.tar.gz.json'']),
        [Call ProjectExportCreate, Call ProjectExportRefresh,
         Sleep (Fin 15), Call ProjectExportRefresh,
         Sleep (Fin 15), Call ProjectExportRefresh],
        [([''work''], Dir), ([''work'', ''out''], Dir)])"
    by code_simp
  from 1 2 3 4 show ?thesis by (intro conjI)
qed

text \<open>
  C6, amended. Once \<^verbatim>\<open>export_project\<close> is at its download step for a project whose
  \<^verbatim>\<open>path\<close> is a name without separators (and whose \<^verbatim>\<open>name\<close> it has read before), with
  the output directory in place, the name of the metadata file within the host's limit and
  no directory at its place, the step returns normally and the file
  \<^verbatim>\<open>project_<path>.tar.gz.json\<close> beside the archive, read back, holds the metadata
  dictionary with \<^verbatim>\<open>name\<close> and \<^verbatim>\<open>path\<close>. Nothing is assumed of the download: it may
  succeed, fail midway or fail to open the archive file.
\<close>

theorem export_project_download_writes_metadata:
  assumes path: "map_of project ''path'' = Some (PyStr s)"
    and slug: "no_sep s"
    and name: "map_of project ''name'' = Some pname"
    and dir: "stat w output_path = Inr Dir"
    and len: "length (project_archive_name (PyStr s) @ ''.json'') \<le> name_max w"
    and free: "stat w (output_path @ [project_archive_name (PyStr s) @ ''.json'']) \<noteq> Inr Dir"
  shows "\<exists>w'. export_project_download self project output_path w = Some (Inr (), w')
     \<and> open_read w' (output_path @ [project_archive_name (PyStr s) @ ''.json'']) =
         Inr (Json (collect_metadata project))
     \<and> map_of (collect_metadata project) ''name'' = Some pname
     \<and> map_of (collect_metadata project) ''path'' = Some (PyStr s)
     \<and> get_filepath_project_metadata (os w) (output_path @ [project_archive_name (PyStr s)]) =
         Inr (output_path @ [project_archive_name (PyStr s) @ ''.json''])"
proof -
  let ?n = "project_archive_name (PyStr s)"
  let ?a = "output_path @ [?n]"
  let ?m = "output_path @ [?n @ ''.json'']"
  have pn: "plain_name ?n" by (rule no_sep_archive [OF slug])
  have pm: "plain_name (?n @ ''.json'')" by (rule no_sep_sidecar [OF slug])
  have jp: "joinpath (os w) output_path (parse_path (os w) ?n) = ?a"
    by (rule joinpath_plain [OF pn])
  have sc: "get_filepath_project_metadata (os w) ?a = Inr ?m"
    by (rule sidecar_path [OF pn pm])
  have nd: "?n \<noteq> ''..''" "?n @ ''.json'' \<noteq> ''..''"
    by (simp_all add: project_archive_name_def)
  have ns: "?n \<noteq> [sep_char (os w)]" "?n @ ''.json'' \<noteq> [sep_char (os w)]"
    by (simp_all add: project_archive_name_def)
  from stat_dir_child [OF dir nd(2) ns(2) len] obtain d where
    d: "locate w output_path = Inr d" and place: "locate w ?m = Inr (d @ [?n @ ''.json''])"
    by (elim exE conjE)
  let ?q = "d @ [?n @ ''.json'']"
  have fr: "fs_lookup (fs w) ?q \<noteq> Some Dir"
    using free by (auto simp: stat_def place)
  let ?w0 = "w\<lparr>trace := trace w @
       [Log Info ''Downloading export for '%s': %s''
          [py_str (PyStr s), str_path (os w) (resolve w ?a)]]\<rparr>"
  from download_export_result [of self project "PyStr s" ?a ?w0]
  obtain w1 where
    blk: "download_export self project (PyStr s) ?a ?w0 = Some (Inr (), w1)"
    and env: "os w1 = os ?w0" "cwd w1 = cwd ?w0" "name_max w1 = name_max ?w0"
    and chg: "(\<forall>x. fs_lookup (fs w1) x = fs_lookup (fs ?w0) x)
         \<or> (\<exists>q bytes. open_write ?w0 ?a = Inr q
               \<and> (\<forall>x. fs_lookup (fs w1) x =
                         (if x = q then Some (Blob bytes) else fs_lookup (fs ?w0) x)))"
    by (elim exE conjE)
  have keep: "(\<forall>x. (fs_lookup (fs w1) x = Some Dir) = (fs_lookup (fs w) x = Some Dir))
      \<and> fs_lookup (fs w1) ?q = fs_lookup (fs w) ?q"
    using chg
  proof
    assume "\<forall>x. fs_lookup (fs w1) x = fs_lookup (fs ?w0) x"
    then show ?thesis by simp
  next
    assume "\<exists>q bytes. open_write ?w0 ?a = Inr q
               \<and> (\<forall>x. fs_lookup (fs w1) x =
                         (if x = q then Some (Blob bytes) else fs_lookup (fs ?w0) x))"
    then obtain qa bytes where
      ow: "open_write w ?a = Inr qa"
      and lk: "\<forall>x. fs_lookup (fs w1) x =
                 (if x = qa then Some (Blob bytes) else fs_lookup (fs w) x)"
      by auto
    note la = open_write_place(1) [OF ow]
    note nda = open_write_place(2) [OF ow]
    from locate_child_Inr [OF la nd(1) ns(1)] obtain da where "qa = da @ [?n]"
      by (elim exE conjE)
    then have "qa \<noteq> ?q" by simp
    with lk nda show ?thesis by simp
  qed
  have same: "\<And>x. (fs_lookup (fs w1) x = Some Dir) = (fs_lookup (fs w) x = Some Dir)"
    using keep by simp
  have "(locate w1 ?m = Inr ?q) = (locate w ?m = Inr ?q)"
    using env by (intro locate_same_dirs same) simp_all
  with place have p1: "locate w1 ?m = Inr ?q" by simp
  have f1: "fs_lookup (fs w1) ?q \<noteq> Some Dir"
    using keep fr by simp
  from write_metadata_file_ok [OF name path p1 f1] obtain w' where
    wr: "write_metadata_file project ?m w1 = Some (Inr (), w')"
    and rd: "open_read w' ?m = Inr (Json (collect_metadata project))"
    by (elim exE conjE)
  have eq: "export_project_download self project output_path w =
      write_metadata_file project ?m w1"
    by (rule export_project_download_steps [OF path jp blk sc])
  have run: "export_project_download self project output_path w = Some (Inr (), w')"
    unfolding eq by (rule wr)
  have 1: "map_of (collect_metadata project) ''name'' = Some pname"
    using name by (simp add: map_of_collect_metadata metadata_keys_def)
  have 2: "map_of (collect_metadata project) ''path'' = Some (PyStr s)"
    using path by (simp add: map_of_collect_metadata metadata_keys_def)
  show ?thesis
  proof (rule exI [of _ w'], intro conjI)
    show "export_project_download self project output_path w = Some (Inr (), w')" by (rule run)
    show "open_read w' ?m = Inr (Json (collect_metadata project))" by (rule rd)
    show "map_of (collect_metadata project) ''name'' = Some pname" by (rule 1)
    show "map_of (collect_metadata project) ''path'' = Some (PyStr s)" by (rule 2)
    show "get_filepath_project_metadata (os w) ?a = Inr ?m" by (rule sc)
  qed
qed

text \<open>The scenario's export of \<^verbatim>\<open>svc1\<close> when the download breaks off after seven
  bytes.\<close>

theorem export_project_download_writes_metadata_witness:
  "project_export_download
     (scenario_remote\<lparr>project_export_download :=
        (\<lambda>_. DownloadFailed ''svc1-ar'' (GitlabError ''connection reset''))\<rparr>) svc1_project =
     DownloadFailed ''svc1-ar'' (GitlabError ''connection reset'')
   \<and> stat export_world [''out''] = Inr Dir
   \<and> length ''project_svc1.tar.gz.json'' \<le> name_max export_world
   \<and> stat export_world [''out'', ''project_svc1.tar.gz.json''] \<noteq> Inr Dir
   \<and> (\<exists>w'. export_project_download
          (export_self\<lparr>gl := scenario_remote\<lparr>project_export_download :=
             (\<lambda>_. DownloadFailed ''svc1-ar'' (GitlabError ''connection reset''))\<rparr>\<rparr>)
          svc1_project [''out''] export_world = Some (Inr (), w')
        \<and> open_read w' [''out'', ''project_svc1.tar.gz.json''] =
            Inr (Json [(''id'', PyInt 11), (''name'', PyStr ''Service 1''),
                        (''path'', PyStr ''svc1'')])
        \<and> open_read w' [''out'', ''project_svc1.tar.gz''] = Inr (Blob ''svc1-ar''))"
proof -
  let ?self = "export_self\<lparr>gl := scenario_remote\<lparr>project_export_download :=
             (\<lambda>_. DownloadFailed ''svc1-ar'' (GitlabError ''connection reset''))\<rparr>\<rparr>"
  have n: "project_archive_name (PyStr ''svc1'') @ ''.json'' = ''project_svc1.tar.gz.json''"
    by (simp add: project_archive_name_def)
  have 1: "map_of svc1_project ''path'' = Some (PyStr ''svc1'')"
    by (simp add: svc1_project_def)
  have 2: "no_sep ''svc1''"
    by (simp add: no_sep_def backslash_def)
  have 3: "map_of svc1_project ''name'' = Some (PyStr ''Service 1'')"
    by (simp add: svc1_project_def)
  have 4: "stat export_world [''out''] = Inr Dir"
    by code_simp
  have 5: "length ''project_svc1.tar.gz.json'' \<le> name_max export_world"
    by (simp add: export_world_def)
  have 6: "stat export_world [''out'', ''project_svc1.tar.gz.json''] \<noteq> Inr Dir"
    by code_simp
  have len: "length (project_archive_name (PyStr ''svc1'') @ ''.json'') \<le> name_max export_world"
    using 5 by (simp add: n)
  have free: "stat export_world ([''out''] @ [project_archive_name (PyStr ''svc1'') @ ''.json''])
      \<noteq> Inr Dir"
    using 6 by (simp add: n)
  have md: "collect_metadata svc1_project =
      [(''id'', PyInt 11), (''name'', PyStr ''Service 1''), (''path'', PyStr ''svc1'')]"
    by (simp add: collect_metadata_def metadata_keys_def svc1_project_def)
  from export_project_download_writes_metadata [OF 1 2 3 4 len free, of ?self]
  obtain w' where
    run: "export_project_download ?self svc1_project [''out''] export_world = Some (Inr (), w')"
    and rd: "open_read w' ([''out''] @ [project_archive_name (PyStr ''svc1'') @ ''.json'']) =
        Inr (Json (collect_metadata svc1_project))"
    by (elim exE conjE)
  have lk: "open_read w' [''out'', ''project_svc1.tar.gz.json''] =
        Inr (Json [(''id'', PyInt 11), (''name'', PyStr ''Service 1''),
                    (''path'', PyStr ''svc1'')])"
    using rd by (simp only: n md append.simps)
  have ev: "map_option (\<lambda>r. open_read (snd r) [''out'', ''project_svc1.tar.gz''])
      (export_project_download ?self svc1_project [''out''] export_world) =
      Some (Inr (Blob ''svc1-ar''))"
    by code_simp
  have ar: "open_read w' [''out'', ''project_svc1.tar.gz''] = Inr (Blob ''svc1-ar'')"
    using ev unfolding run by simp
  have dl: "project_export_download
     (scenario_remote\<lparr>project_export_download :=
        (\<lambda>_. DownloadFailed ''svc1-ar'' (GitlabError ''connection reset''))\<rparr>) svc1_project =
     DownloadFailed ''svc1-ar'' (GitlabError ''connection reset'')"
    by simp
  show ?thesis
  proof (intro conjI exI [of _ w'])
    show "project_export_download
     (scenario_remote\<lparr>project_export_download :=
        (\<lambda>_. DownloadFailed ''svc1-ar'' (GitlabError ''connection reset''))\<rparr>) svc1_project =
     DownloadFailed ''svc1-ar'' (GitlabError ''connection reset'')" by (rule dl)
    show "stat export_world [''out''] = Inr Dir" by (rule 4)
    show "length ''project_svc1.tar.gz.json'' \<le> name_max export_world" by (rule 5)
    show "stat export_world [''out'', ''project_svc1.tar.gz.json''] \<noteq> Inr Dir" by (rule 6)
    show "export_project_download ?self svc1_project [''out''] export_world = Some (Inr (), w')"
      by (rule run)
    show "open_read w' [''out'', ''project_svc1.tar.gz.json''] =
        Inr (Json [(''id'', PyInt 11), (''name'', PyStr ''Service 1''),
                    (''path'', PyStr ''svc1'')])" by (rule lk)
    show "open_read w' [''out'', ''project_svc1.tar.gz''] = Inr (Blob ''svc1-ar'')"
      by (rule ar)
  qed
qed

text \<open>
  C7. When \<^verbatim>\<open>exists()\<close> answers \<^verbatim>\<open>False\<close> for the \<^verbatim>\<open>metadata.json\<close> of the export
  directory, \<^verbatim>\<open>_import_groups\<close> raises the \<^verbatim>\<open>RuntimeError\<close> of the check and leaves the
  world as it was: nothing is logged and no API call is made. When it answers
  \<^verbatim>\<open>True\<close>, the check returns normally and the phase never ends with a
  \<^verbatim>\<open>RuntimeError\<close>. For an export folder that is a directory (on a host whose names may
  have the 13 characters of \<^verbatim>\<open>metadata.json\<close>) \<^verbatim>\<open>exists()\<close> does answer, so one of
  the two cases applies.
\<close>

theorem import_groups_checks_export_folder:
  "(path_exists w (get_filepath_group_metadata (os w) (export_folder self)) = Inr False \<longrightarrow>
      import_groups self gitlab_root w =
        Some (Inl (RuntimeError ''Path has no metadata file 'metadata.json'!''), w))
   \<and> (path_exists w (get_filepath_group_metadata (os w) (export_folder self)) = Inr True \<longrightarrow>
      check_is_export_folder (export_folder self) w = Some (Inr (), w)
      \<and> (\<forall>m w'. import_groups self gitlab_root w \<noteq> Some (Inl (RuntimeError m), w')))
   \<and> (stat w (export_folder self) = Inr Dir \<and> 13 \<le> name_max w \<longrightarrow>
      (\<exists>found. path_exists w (get_filepath_group_metadata (os w) (export_folder self)) =
         Inr found))"
proof (intro conjI impI allI)
  assume "path_exists w (get_filepath_group_metadata (os w) (export_folder self)) = Inr False"
  then show "import_groups self gitlab_root w =
      Some (Inl (RuntimeError ''Path has no metadata file 'metadata.json'!''), w)"
    by (rule import_groups_missing)
next
  assume "path_exists w (get_filepath_group_metadata (os w) (export_folder self)) = Inr True"
  then show "check_is_export_folder (export_folder self) w = Some (Inr (), w)"
    by (rule check_is_export_folder_present)
next
  fix m w'
  assume "path_exists w (get_filepath_group_metadata (os w) (export_folder self)) = Inr True"
  then show "import_groups self gitlab_root w \<noteq> Some (Inl (RuntimeError m), w')"
    by (rule import_groups_not_runtime)
next
  assume a: "stat w (export_folder self) = Inr Dir \<and> 13 \<le> name_max w"
  have 1: "METADATA_FILENAME \<noteq> ''..''" by (simp add: METADATA_FILENAME_def)
  have 2: "METADATA_FILENAME \<noteq> [sep_char (os w)]" by (simp add: METADATA_FILENAME_def)
  have 3: "length METADATA_FILENAME \<le> name_max w"
    using a by (simp add: METADATA_FILENAME_def)
  from path_exists_in_dir [OF a [THEN conjunct1] 1 2] 3
  show "\<exists>found. path_exists w (get_filepath_group_metadata (os w) (export_folder self)) =
      Inr found"
    by (simp add: metadata_path)
qed

theorem import_groups_checks_export_folder_witness:
  "stat export_world (export_folder export_self) = Inr Dir \<and> 13 \<le> name_max export_world
   \<and> path_exists export_world
        (get_filepath_group_metadata (os export_world) (export_folder export_self)) = Inr False
   \<and> import_groups export_self (PyStr ''destgrp'') export_world =
        Some (Inl (RuntimeError ''Path has no metadata file 'metadata.json'!''), export_world)
   \<and> path_exists import_world
        (get_filepath_group_metadata (os import_world) (export_folder import_self)) = Inr True
   \<and> check_is_export_folder (export_folder import_self) import_world =
        Some (Inr (), import_world)
   \<and> import_groups import_self (PyStr ''destgrp'') import_world \<noteq>
        Some (Inl (RuntimeError ''Path has no metadata file 'metadata.json'!''), import_world)"
proof -
  have dir: "stat export_world (export_folder export_self) = Inr Dir"
    by code_simp
  have nm: "13 \<le> name_max export_world"
    by (simp add: export_world_def)
  have missing: "path_exists export_world
        (get_filepath_group_metadata (os export_world) (export_folder export_self)) = Inr False"
    by code_simp
  have present: "path_exists import_world
        (get_filepath_group_metadata (os import_world) (export_folder import_self)) = Inr True"
    by code_simp
  note a = import_groups_checks_export_folder
        [of export_world export_self "PyStr ''destgrp''"]
  note b = import_groups_checks_export_folder
        [of import_world import_self "PyStr ''destgrp''"]
  note a1 = a [THEN conjunct1, rule_format, OF missing]
  note b2 = b [THEN conjunct2, THEN conjunct1, rule_format, OF present]
  note b3 = b2 [THEN conjunct1]
  note b4 = b2 [THEN conjunct2, rule_format]
  from dir nm missing a1 present b3 b4 show ?thesis
    by (intro conjI)
qed

text \<open>
  C8 as the claim states it fails, in two ways. The subgroup directory \<^verbatim>\<open>exp/sub1\<close> has a
  \<^verbatim>\<open>metadata.json\<close> and no group archive, and with a Gitlab root that does not resolve
  \<^verbatim>\<open>_import_groups\<close> logs the error and returns \<^verbatim>\<open>False\<close> before it looks for the
  archive. The directory \<^verbatim>\<open>exp[1]\<close> has a \<^verbatim>\<open>metadata.json\<close> and no group archive
  either, but the glob reads its name as a pattern, finds the archive of the neighbour
  \<^verbatim>\<open>exp1\<close> and imports that.
\<close>

theorem import_groups_without_archive_no_StopIteration:
  "path_exists import_world
     (get_filepath_group_metadata (os import_world) [''exp'', ''sub1'']) = Inr True
   \<and> listdir import_world [''exp'', ''sub1''] False =
       [''metadata.json'', ''project_svc2.tar.gz'', ''project_svc2.tar.gz.json'']
   \<and> map_option (\<lambda>r. (fst r, trace (snd r)))
        (import_groups (import_self\<lparr>export_folder := [''exp'', ''sub1'']\<rparr>) (PyStr ''nope'')
           import_world) =
       Some (Inr False,
         [Call (GroupsGet ''nope''),
          Log Error ''No such group '%s' (for this access token)! (make sure it exists!)''
            [''nope'']])
   \<and> path_exists bracket_world
        (get_filepath_group_metadata (os bracket_world) [''exp[1]'']) = Inr True
   \<and> listdir bracket_world [''exp[1]''] False = [''metadata.json'']
   \<and> map_option (\<lambda>r. (fst r, trace (snd r)))
        (import_groups (import_self\<lparr>export_folder := [''exp[1]'']\<rparr>) PyNone bracket_world) =
       Some (Inr True,
         [Log Info ''Importing group '%s' with path '%s' ...'' [''Team A'', ''teamA''],
          Log Info ''Loading from file '%s' ...'' [''/work/exp1/group_other.tar.gz''],
          Call (GroupImport [''/'', ''work'', ''exp1'', ''group_other.tar.gz''] (PyStr ''teamA'')
             (PyStr ''Team A'') (PyStr ''None'')),
          Log Info ''Group import of '%s' done.'' [''Team A'']])"
  by code_simp

text \<open>
  C8, amended. When \<^verbatim>\<open>metadata.json\<close> holds a dictionary with \<^verbatim>\<open>name\<close> and
  \<^verbatim>\<open>path\<close>, the glob of \<^verbatim>\<open>group_*.tar.gz\<close> under the resolved path of the folder
  finds nothing (by \<open>iglob_plain_folder\<close>: for a path without wildcard characters, no
  name of the folder matches the pattern), and the Gitlab root is absent or resolves to a
  group (with its \<^verbatim>\<open>id\<close> and \<^verbatim>\<open>name\<close>), the check passes and \<^verbatim>\<open>_import_groups\<close>
  ends with \<^verbatim>\<open>StopIteration\<close>: the files are unchanged and the only API call is the
  lookup of the parent.
\<close>

theorem import_groups_without_archive_raises_StopIteration:
  assumes meta: "open_read w (get_filepath_group_metadata (os w) (export_folder self)) =
      Inr (Json d)"
    and name: "map_of d ''name'' = Some main_group_name"
    and path: "map_of d ''path'' = Some main_group_path"
    and glob: "iglob w (resolve w (joinpath (os w) (export_folder self)
                                    (parse_path (os w) FILENAME_PATTERN_GROUP))) = []"
    and parent: "\<not> truthy gitlab_root \<or>
      (\<exists>grp gid gname. groups_get (gl self) (py_str gitlab_root) = Some grp
         \<and> map_of grp ''id'' = Some gid \<and> map_of grp ''name'' = Some gname)"
  shows "check_is_export_folder (export_folder self) w = Some (Inr (), w)
    \<and> (\<exists>w'. import_groups self gitlab_root w = Some (Inl StopIteration, w')
          \<and> fs w' = fs w
          \<and> api_calls (trace w') = api_calls (trace w) @
               (if truthy gitlab_root then [GroupsGet (py_str gitlab_root)] else []))"
proof -
  note chk = check_is_export_folder_present [OF open_read_exists [OF meta]]
  note rd = read_metadata_file_Json [OF meta]
  have g: "iglob w (resolve w (joinpath (os w) (export_folder self)
                                 (parse_path (os w) ''group_*.tar.gz''))) = []"
    using glob by (simp add: FILENAME_PATTERN_GROUP_def)
  have "\<exists>w'. import_groups self gitlab_root w = Some (Inl StopIteration, w')
          \<and> fs w' = fs w
          \<and> api_calls (trace w') = api_calls (trace w) @
               (if truthy gitlab_root then [GroupsGet (py_str gitlab_root)] else [])"
  proof (cases "truthy gitlab_root")
    case False
    then show ?thesis
      using name path g
      by (simp add: import_groups_def chk rd getitem_def
          find_parent_def get_group_exportfile_def comp_defs)
  next
    case True
    with parent obtain grp gid gname where
      "groups_get (gl self) (py_str gitlab_root) = Some grp"
      "map_of grp ''id'' = Some gid" "map_of grp ''name'' = Some gname"
      by (elim disjE exE conjE) simp_all
    with True show ?thesis
      using name path g
      by (simp add: import_groups_def chk rd getitem_def
          find_parent_def get_group_def getattr_def get_group_exportfile_def comp_defs)
  qed
  with chk show ?thesis by (intro conjI)
qed

text \<open>The subgroup directory of the scenario, with the Gitlab root \<^verbatim>\<open>destgrp\<close>.\<close>

theorem import_groups_without_archive_raises_StopIteration_witness:
  "resolve import_world [''exp'', ''sub1'', ''group_*.tar.gz''] =
     [''/'', ''work'', ''exp'', ''sub1'', ''group_*.tar.gz'']
   \<and> listdir import_world [''/'', ''work'', ''exp'', ''sub1''] False =
       [''metadata.json'', ''project_svc2.tar.gz'', ''project_svc2.tar.gz.json'']
   \<and> check_is_export_folder [''exp'', ''sub1''] import_world = Some (Inr (), import_world)
   \<and> (\<exists>w'. import_groups (import_self\<lparr>export_folder := [''exp'', ''sub1'']\<rparr>)
              (PyStr ''destgrp'') import_world = Some (Inl StopIteration, w')
          \<and> fs w' = fs import_world
          \<and> api_calls (trace w') = [GroupsGet ''destgrp''])"
proof -
  let ?self = "import_self\<lparr>export_folder := [''exp'', ''sub1'']\<rparr>"
  have 1: "open_read import_world
      (get_filepath_group_metadata (os import_world) (export_folder ?self)) =
      Inr (Json [(''id'', PyInt 6), (''name'', PyStr ''Sub 1''), (''path'', PyStr ''sub1'')])"
    by code_simp
  have 2: "map_of [(''id'', PyInt 6), (''name'', PyStr ''Sub 1''), (''path'', PyStr ''sub1'')]
      ''name'' = Some (PyStr ''Sub 1'')"
    by simp
  have 3: "map_of [(''id'', PyInt 6), (''name'', PyStr ''Sub 1''), (''path'', PyStr ''sub1'')]
      ''path'' = Some (PyStr ''sub1'')"
    by simp
  have 4: "iglob import_world (resolve import_world (joinpath (os import_world)
             (export_folder ?self) (parse_path (os import_world) FILENAME_PATTERN_GROUP))) = []"
    by code_simp
  have 5: "\<not> truthy (PyStr ''destgrp'') \<or>
      (\<exists>grp gid gname. groups_get (gl ?self) (py_str (PyStr ''destgrp'')) = Some grp
         \<and> map_of grp ''id'' = Some gid \<and> map_of grp ''name'' = Some gname)"
    by (simp add: import_self_def scenario_remote_def)
  have 6: "resolve import_world [''exp'', ''sub1'', ''group_*.tar.gz''] =
     [''/'', ''work'', ''exp'', ''sub1'', ''group_*.tar.gz'']"
    by code_simp
  have 7: "listdir import_world [''/'', ''work'', ''exp'', ''sub1''] False =
       [''metadata.json'', ''project_svc2.tar.gz'', ''project_svc2.tar.gz.json'']"
    by code_simp
  note inst = import_groups_without_archive_raises_StopIteration [OF 1 2 3 4 5]
  have 8: "check_is_export_folder [''exp'', ''sub1''] import_world = Some (Inr (), import_world)"
    using inst [THEN conjunct1] by (simp add: import_self_def)
  have 9: "\<exists>w'. import_groups ?self (PyStr ''destgrp'') import_world = Some (Inl StopIteration, w')
          \<and> fs w' = fs import_world
          \<and> api_calls (trace w') = [GroupsGet ''destgrp'']"
    using inst [THEN conjunct2] by (simp add: import_self_def import_world_def)
  from 6 7 8 9 show ?thesis by (intro conjI)
qed

text \<open>
  C9. With \<^verbatim>\<open>no_groups\<close> set, \<^verbatim>\<open>importing\<close> goes straight to \<^verbatim>\<open>_import_projects\<close>:
  when \<^verbatim>\<open>exists()\<close> answers \<^verbatim>\<open>False\<close> for the \<^verbatim>\<open>metadata.json\<close> of the export
  folder, the run ends with the error of opening that file, before anything is logged or
  called: \<^verbatim>\<open>FileNotFoundError\<close> when the export folder is a directory (and
  \<^verbatim>\<open>NotADirectoryError\<close> at most otherwise); with the groups phase the same folder gives
  the \<^verbatim>\<open>RuntimeError\<close> of the check.
\<close>

theorem importing_no_groups_skips_check:
  assumes "path_exists w (get_filepath_group_metadata (os w) (export_folder self)) = Inr False"
  shows "(importing self gitlab_path True w =
            Some (Inl (FileNotFoundError
                         (get_filepath_group_metadata (os w) (export_folder self))), w)
          \<or> importing self gitlab_path True w =
            Some (Inl (NotADirectoryError
                         (get_filepath_group_metadata (os w) (export_folder self))), w))
     \<and> (stat w (export_folder self) = Inr Dir \<longrightarrow>
          importing self gitlab_path True w =
            Some (Inl (FileNotFoundError
                         (get_filepath_group_metadata (os w) (export_folder self))), w))
     \<and> importing self gitlab_path False w =
         Some (Inl (RuntimeError ''Path has no metadata file 'metadata.json'!''), w)"
proof (intro conjI impI)
  let ?meta = "get_filepath_group_metadata (os w) (export_folder self)"
  from path_exists_False [OF assms]
  show "importing self gitlab_path True w = Some (Inl (FileNotFoundError ?meta), w)
      \<or> importing self gitlab_path True w = Some (Inl (NotADirectoryError ?meta), w)"
    by (auto simp: importing_def import_projects_error)
next
  let ?meta = "get_filepath_group_metadata (os w) (export_folder self)"
  assume d: "stat w (export_folder self) = Inr Dir"
  have 1: "METADATA_FILENAME \<noteq> ''..''" by (simp add: METADATA_FILENAME_def)
  have 2: "METADATA_FILENAME \<noteq> [sep_char (os w)]" by (simp add: METADATA_FILENAME_def)
  from path_exists_in_dir [OF d 1 2] assms
  have "stat w ?meta = Inl (FileNotFoundError ?meta)"
    by (simp add: metadata_path)
  then show "importing self gitlab_path True w = Some (Inl (FileNotFoundError ?meta), w)"
    by (simp add: importing_def import_projects_error)
next
  show "importing self gitlab_path False w =
      Some (Inl (RuntimeError ''Path has no metadata file 'metadata.json'!''), w)"
    using import_groups_missing [OF assms, of gitlab_path]
    by (simp add: importing_def then_do_def)
qed

theorem importing_no_groups_skips_check_witness:
  "path_exists export_world
        (get_filepath_group_metadata (os export_world) (export_folder export_self)) = Inr False
   \<and> stat export_world (export_folder export_self) = Inr Dir
   \<and> importing export_self PyNone True export_world =
        Some (Inl (FileNotFoundError [''out'', ''metadata.json'']), export_world)
   \<and> importing export_self PyNone False export_world =
        Some (Inl (RuntimeError ''Path has no metadata file 'metadata.json'!''), export_world)"
proof -
  have missing: "path_exists export_world
        (get_filepath_group_metadata (os export_world) (export_folder export_self)) = Inr False"
    by code_simp
  have dir: "stat export_world (export_folder export_self) = Inr Dir"
    by code_simp
  have name: "get_filepath_group_metadata (os export_world) (export_folder export_self) =
      [''out'', ''metadata.json'']"
    by code_simp
  note inst = importing_no_groups_skips_check [OF missing, of PyNone]
  note a = inst [THEN conjunct2, THEN conjunct1, rule_format, OF dir]
  note b = inst [THEN conjunct2, THEN conjunct2]
  from missing dir a b show ?thesis
    by (simp only: name)
qed

text \<open>
  C10 as the claim states it fails: the constructor accepts the delay \<^verbatim>\<open>inf\<close> (and
  \<open>10\<^sup>1\<^sup>0\<close>), which is at least 1, but \<^verbatim>\<open>time.sleep\<close> refuses it, so the first round of
  either polling loop raises \<^verbatim>\<open>OverflowError\<close> before any sleep or fetch, and
  \<^verbatim>\<open>export_project\<close> ends with that exception after the creation and the first fetch.
\<close>

theorem init_accepts_delay_that_sleep_refuses:
  "float_ge PosInf 1
   \<and> init scenario_remote [''out''] PosInf = Inr (export_self\<lparr>delay_seconds := PosInf\<rparr>)
   \<and> export_wait (export_self\<lparr>delay_seconds := PosInf\<rparr>) svc1_project ''started'' 1
        export_world =
      Some (Inl (OverflowError ''timestamp out of range for platform time_t''), export_world)
   \<and> import_wait (export_self\<lparr>delay_seconds := PosInf\<rparr>) (PyInt 7)
        (''started'', ''destgrp/teamA/sub1/svc2'') 1 export_world =
      Some (Inl (OverflowError ''timestamp out of range for platform time_t''), export_world)
   \<and> map_option (\<lambda>r. (fst r, actions (trace (snd r))))
        (export_project (export_self\<lparr>delay_seconds := PosInf\<rparr>) svc1_project None
           export_world) =
      Some (Inl (OverflowError ''timestamp out of range for platform time_t''),
        [Call ProjectExportCreate, Call ProjectExportRefresh])
   \<and> float_ge (Fin 10000000000) 1
   \<and> map_option (\<lambda>r. (fst r, actions (trace (snd r))))
        (export_project (export_self\<lparr>delay_seconds := Fin 10000000000\<rparr>) svc1_project None
           export_world) =
      Some (Inl (OverflowError ''timestamp out of range for platform time_t''),
        [Call ProjectExportCreate, Call ProjectExportRefresh])"
proof -
  have 1: "float_ge PosInf 1" by simp
  have 2: "init scenario_remote [''out''] PosInf = Inr (export_self\<lparr>delay_seconds := PosInf\<rparr>)"
    by (simp add: init_def export_self_def)
  have 3: "export_wait (export_self\<lparr>delay_seconds := PosInf\<rparr>) svc1_project ''started'' 1
        export_world =
      Some (Inl (OverflowError ''timestamp out of range for platform time_t''), export_world)"
    by code_simp
  have 4: "import_wait (export_self\<lparr>delay_seconds := PosInf\<rparr>) (PyInt 7)
        (''started'', ''destgrp/teamA/sub1/svc2'') 1 export_world =
      Some (Inl (OverflowError ''timestamp out of range for platform time_t''), export_world)"
    by code_simp
  have 5: "map_option (\<lambda>r. (fst r, actions (trace (snd r))))
        (export_project (export_self\<lparr>delay_seconds := PosInf\<rparr>) svc1_project None
           export_world) =
      Some (Inl (OverflowError ''timestamp out of range for platform time_t''),
        [Call ProjectExportCreate, Call ProjectExportRefresh])"
    by code_simp
  have 6: "float_ge (Fin 10000000000) 1" by simp
  have 7: "map_option (\<lambda>r. (fst r, actions (trace (snd r))))
        (export_project (export_self\<lparr>delay_seconds := Fin 10000000000\<rparr>) svc1_project None
           export_world) =
      Some (Inl (OverflowError ''timestamp out of range for platform time_t''),
        [Call ProjectExportCreate, Call ProjectExportRefresh])"
    by code_simp
  from 1 2 3 4 5 6 7 show ?thesis by (intro conjI)
qed

text \<open>
  C10, amended. A delay below 1 makes the constructor fail with the assertion error; a delay
  of at least 1 makes it succeed, and the object holds exactly that delay. \<^verbatim>\<open>time.sleep\<close>
  accepts such a delay when it is finite and within the ranges of the clock and of the
  kernel; then a polling loop of the object whose job is not finished for the next fetches
  \<open>sts\<close> and finished at the one after them returns with exactly one round per fetch,
  each a sleep of that delay and the fetch. When \<^verbatim>\<open>time.sleep\<close> refuses the delay, the
  first round of a loop raises its exception and nothing else happens. A loop that returns
  at all has added rounds of that delay and its fetch to the events, and nothing else.
\<close>

theorem init_delay_is_poll_interval:
  "(float_lt d 1 \<longrightarrow>
      init g folder d =
        Inl (AssertionError ''Delay between download checks must be a meaningful duration!''))
   \<and> (float_ge d 1 \<longrightarrow>
      init g folder d = Inr \<lparr>gl = g, delay_seconds = d, export_folder = folder\<rparr>
      \<and> (sleep_error cmax smax d = None) = (\<exists>r. d = Fin r \<and> r \<le> cmax \<and> r \<le> smax)
      \<and> (sleep_error (clock_max w) (sleep_max w) d = None
           \<and> st \<noteq> ''finished'' \<and> list_all (\<lambda>s. s \<noteq> ''finished'') sts
           \<and> answers (project_export_status g project) n (sts @ [''finished'']) \<longrightarrow>
           export_wait \<lparr>gl = g, delay_seconds = d, export_folder = folder\<rparr> project st n w =
             Some (Inr ''finished'',
               w\<lparr>trace := trace w @ polls d ProjectExportRefresh (Suc (length sts))\<rparr>))
      \<and> (sleep_error (clock_max w) (sleep_max w) d = None
           \<and> fst importer \<noteq> ''finished'' \<and> list_all (\<lambda>s. fst s \<noteq> ''finished'') ists
           \<and> answers (project_import_status g import_id) n (ists @ [(''finished'', p)]) \<longrightarrow>
           import_wait \<lparr>gl = g, delay_seconds = d, export_folder = folder\<rparr> import_id importer
               n w =
             Some (Inr (''finished'', p),
               w\<lparr>trace := trace w @ polls d ProjectImportRefresh (Suc (length ists))\<rparr>))
      \<and> (sleep_error (clock_max w) (sleep_max w) d = Some e \<and> st \<noteq> ''finished'' \<longrightarrow>
           export_wait \<lparr>gl = g, delay_seconds = d, export_folder = folder\<rparr> project st n w =
             Some (Inl e, w))
      \<and> (sleep_error (clock_max w) (sleep_max w) d = Some e \<and> fst importer \<noteq> ''finished'' \<longrightarrow>
           import_wait \<lparr>gl = g, delay_seconds = d, export_folder = folder\<rparr> import_id importer
               n w =
             Some (Inl e, w))
      \<and> (\<forall>self project st n w y.
            init g folder d = Inr self \<longrightarrow> export_wait self project st n w = Some y \<longrightarrow>
            (\<exists>k. snd y = w\<lparr>trace := trace w @ polls d ProjectExportRefresh k\<rparr>))
      \<and> (\<forall>self import_id importer n w y.
            init g folder d = Inr self \<longrightarrow> import_wait self import_id importer n w = Some y \<longrightarrow>
            (\<exists>k. snd y = w\<lparr>trace := trace w @ polls d ProjectImportRefresh k\<rparr>)))"
proof (intro conjI impI allI)
  assume "float_lt d 1"
  then show "init g folder d =
        Inl (AssertionError ''Delay between download checks must be a meaningful duration!'')"
    by (cases d) (simp_all add: init_def)
next
  assume "float_ge d 1"
  then show "init g folder d = Inr \<lparr>gl = g, delay_seconds = d, export_folder = folder\<rparr>"
    by (simp add: init_def)
next
  assume "float_ge d 1"
  then show "(sleep_error cmax smax d = None) = (\<exists>r. d = Fin r \<and> r \<le> cmax \<and> r \<le> smax)"
    by (cases d) (auto simp: sleep_error_def)
next
  let ?self = "\<lparr>gl = g, delay_seconds = d, export_folder = folder\<rparr>"
  assume "sleep_error (clock_max w) (sleep_max w) d = None
           \<and> st \<noteq> ''finished'' \<and> list_all (\<lambda>s. s \<noteq> ''finished'') sts
           \<and> answers (project_export_status g project) n (sts @ [''finished''])"
  then show "export_wait ?self project st n w =
             Some (Inr ''finished'',
               w\<lparr>trace := trace w @ polls d ProjectExportRefresh (Suc (length sts))\<rparr>)"
    using export_wait_rounds [of w ?self st sts project n] by simp
next
  let ?self = "\<lparr>gl = g, delay_seconds = d, export_folder = folder\<rparr>"
  assume "sleep_error (clock_max w) (sleep_max w) d = None
           \<and> fst importer \<noteq> ''finished'' \<and> list_all (\<lambda>s. fst s \<noteq> ''finished'') ists
           \<and> answers (project_import_status g import_id) n (ists @ [(''finished'', p)])"
  then show "import_wait ?self import_id importer n w =
             Some (Inr (''finished'', p),
               w\<lparr>trace := trace w @ polls d ProjectImportRefresh (Suc (length ists))\<rparr>)"
    using import_wait_rounds [of w ?self importer ists import_id n p] by simp
next
  let ?self = "\<lparr>gl = g, delay_seconds = d, export_folder = folder\<rparr>"
  assume "sleep_error (clock_max w) (sleep_max w) d = Some e \<and> st \<noteq> ''finished''"
  then show "export_wait ?self project st n w = Some (Inl e, w)"
    using export_wait_refused [of w ?self e st project n] by simp
next
  let ?self = "\<lparr>gl = g, delay_seconds = d, export_folder = folder\<rparr>"
  assume "sleep_error (clock_max w) (sleep_max w) d = Some e \<and> fst importer \<noteq> ''finished''"
  then show "import_wait ?self import_id importer n w = Some (Inl e, w)"
    using import_wait_refused [of w ?self e importer import_id n] by simp
next
  fix self :: "gitlab gie" and project st n w y
  assume "float_ge d 1" and i: "init g folder d = Inr self"
    and e: "export_wait self project st n w = Some y"
  from i have "delay_seconds self = d"
    by (auto simp: init_def split: if_splits)
  with export_wait_polls [OF e]
  show "\<exists>k. snd y = w\<lparr>trace := trace w @ polls d ProjectExportRefresh k\<rparr>" by simp
next
  fix self :: "gitlab gie" and import_id importer n w y
  assume "float_ge d 1" and i: "init g folder d = Inr self"
    and e: "import_wait self import_id importer n w = Some y"
  from i have "delay_seconds self = d"
    by (auto simp: init_def split: if_splits)
  with import_wait_polls [OF e]
  show "\<exists>k. snd y = w\<lparr>trace := trace w @ polls d ProjectImportRefresh k\<rparr>" by simp
qed

text \<open>The delays \<open>1/2\<close>, 15 (the scenario's jobs: two rounds) and \<^verbatim>\<open>inf\<close>.\<close>

theorem init_delay_is_poll_interval_witness:
  "float_lt (Fin (1 / 2)) 1
   \<and> init scenario_remote [''out''] (Fin (1 / 2)) =
        Inl (AssertionError ''Delay between download checks must be a meaningful duration!'')
   \<and> float_ge (Fin 15) 1
   \<and> init scenario_remote [''out''] (Fin 15) = Inr export_self
   \<and> sleep_error (clock_max export_world) (sleep_max export_world) (Fin 15) = None
   \<and> answers (project_export_status scenario_remote svc1_project) 1 [''started'', ''finished'']
   \<and> export_wait export_self svc1_project ''started'' 1 export_world =
        Some (Inr ''finished'',
          export_world\<lparr>trace :=
            [Sleep (Fin 15), Call ProjectExportRefresh,
             Sleep (Fin 15), Call ProjectExportRefresh]\<rparr>)
   \<and> answers (project_import_status scenario_remote (PyInt 7)) 1
        [(''started'', ''destgrp/teamA/sub1/svc2''), (''finished'', ''destgrp/teamA/sub1/svc2'')]
   \<and> import_wait export_self (PyInt 7) (''started'', ''destgrp/teamA/sub1/svc2'') 1
        export_world =
        Some (Inr (''finished'', ''destgrp/teamA/sub1/svc2''),
          export_world\<lparr>trace :=
            [Sleep (Fin 15), Call ProjectImportRefresh,
             Sleep (Fin 15), Call ProjectImportRefresh]\<rparr>)
   \<and> float_ge PosInf 1
   \<and> sleep_error (clock_max export_world) (sleep_max export_world) PosInf =
        Some (OverflowError ''timestamp out of range for platform time_t'')
   \<and> export_wait \<lparr>gl = scenario_remote, delay_seconds = PosInf, export_folder = [''out'']\<rparr>
        svc1_project ''started'' 1 export_world =
        Some (Inl (OverflowError ''timestamp out of range for platform time_t''), export_world)
   \<and> import_wait \<lparr>gl = scenario_remote, delay_seconds = PosInf, export_folder = [''out'']\<rparr>
        (PyInt 7) (''started'', ''destgrp/teamA/sub1/svc2'') 1 export_world =
        Some (Inl (OverflowError ''timestamp out of range for platform time_t''), export_world)"
proof -
  let ?p = "''destgrp/teamA/sub1/svc2''"
  note half = init_delay_is_poll_interval [of "Fin (1 / 2)" scenario_remote "[''out'']"]
  note ok = init_delay_is_poll_interval
    [where d = "Fin 15" and g = scenario_remote and folder = "[''out'']"
       and w = export_world and st = "''started''" and sts = "[''started'']"
       and project = svc1_project and n = 1
       and importer = "(''started'', ?p)" and ists = "[(''started'', ?p)]"
       and import_id = "PyInt 7" and p = ?p]
  note refused = init_delay_is_poll_interval
    [where d = PosInf and g = scenario_remote and folder = "[''out'']"
       and w = export_world and st = "''started''"
       and project = svc1_project and n = 1
       and importer = "(''started'', ?p)"
       and import_id = "PyInt 7"
       and e = "OverflowError ''timestamp out of range for platform time_t''"]
  have lt: "float_lt (Fin (1 / 2)) 1" by simp
  have ge: "float_ge (Fin 15) 1" by simp
  have gi: "float_ge PosInf 1" by simp
  have a: "init scenario_remote [''out''] (Fin (1 / 2)) =
        Inl (AssertionError ''Delay between download checks must be a meaningful duration!'')"
    by (rule half [THEN conjunct1, rule_format, OF lt])
  note ok' = ok [THEN conjunct2, rule_format, OF ge]
  have b: "init scenario_remote [''out''] (Fin 15) = Inr export_self"
    using ok' [THEN conjunct1] by (simp add: export_self_def)
  have sl: "sleep_error (clock_max export_world) (sleep_max export_world) (Fin 15) = None"
    by (simp add: export_world_def sleep_error_def)
  have an: "answers (project_export_status scenario_remote svc1_project) 1
      [''started'', ''finished'']"
    by (simp add: scenario_remote_def numeral_2_eq_2)
  have ian: "answers (project_import_status scenario_remote (PyInt 7)) 1
      [(''started'', ?p), (''finished'', ?p)]"
    by (simp add: scenario_remote_def numeral_2_eq_2)
  have eh: "sleep_error (clock_max export_world) (sleep_max export_world) (Fin 15) = None
           \<and> ''started'' \<noteq> ''finished'' \<and> list_all (\<lambda>s. s \<noteq> ''finished'') [''started'']
           \<and> answers (project_export_status scenario_remote svc1_project) 1
               ([''started''] @ [''finished''])"
    using sl an by simp
  have ih: "sleep_error (clock_max export_world) (sleep_max export_world) (Fin 15) = None
           \<and> fst (''started'', ?p) \<noteq> ''finished''
           \<and> list_all (\<lambda>s. fst s \<noteq> ''finished'') [(''started'', ?p)]
           \<and> answers (project_import_status scenario_remote (PyInt 7)) 1
               ([(''started'', ?p)] @ [(''finished'', ?p)])"
    using sl ian by simp
  have c: "export_wait export_self svc1_project ''started'' 1 export_world =
        Some (Inr ''finished'',
          export_world\<lparr>trace :=
            [Sleep (Fin 15), Call ProjectExportRefresh,
             Sleep (Fin 15), Call ProjectExportRefresh]\<rparr>)"
    using ok' [THEN conjunct2, THEN conjunct2, THEN conjunct1, rule_format, OF eh]
    by (simp add: export_self_def export_world_def polls_def)
  have d: "import_wait export_self (PyInt 7) (''started'', ?p) 1 export_world =
        Some (Inr (''finished'', ?p),
          export_world\<lparr>trace :=
            [Sleep (Fin 15), Call ProjectImportRefresh,
             Sleep (Fin 15), Call ProjectImportRefresh]\<rparr>)"
    using ok' [THEN conjunct2, THEN conjunct2, THEN conjunct2, THEN conjunct1, rule_format,
        OF ih]
    by (simp add: export_self_def export_world_def polls_def)
  have se: "sleep_error (clock_max export_world) (sleep_max export_world) PosInf =
        Some (OverflowError ''timestamp out of range for platform time_t'')"
    by (simp add: sleep_error_def)
  note refused' = refused [THEN conjunct2, rule_format, OF gi]
  have rh: "sleep_error (clock_max export_world) (sleep_max export_world) PosInf =
        Some (OverflowError ''timestamp out of range for platform time_t'')
      \<and> ''started'' \<noteq> ''finished''"
    using se by simp
  have rih: "sleep_error (clock_max export_world) (sleep_max export_world) PosInf =
        Some (OverflowError ''timestamp out of range for platform time_t'')
      \<and> fst (''started'', ?p) \<noteq> ''finished''"
    using se by simp
  note f = refused' [THEN conjunct2, THEN conjunct2, THEN conjunct2, THEN conjunct2,
      THEN conjunct1, rule_format, OF rh]
  note g = refused' [THEN conjunct2, THEN conjunct2, THEN conjunct2, THEN conjunct2,
      THEN conjunct2, THEN conjunct1, rule_format, OF rih]
  from lt a ge b sl an c ian d gi se f g show ?thesis by (intro conjI)
qed

end
